theory Spec2Isabelle
  imports Main
begin

section \<open>JavaScript values and the platform\<close>

text \<open>
  Messages, frames and decoded events are JavaScript values. Strings are byte lists
  (ASCII text), numbers are restricted to integers; the client never computes with either.
  A \<open>JBuffer\<close> is a Node Buffer (or ArrayBuffer) holding the given bytes.
\<close>

datatype jsval =
    JUndefined
  | JNull
  | JBool bool
  | JNumber int
  | JBigInt int
  | JString string
  | JSymbol string
  | JFunction nat
  | JArray "jsval list"
  | JObject "(string \<times> jsval) list"
  | JBuffer string

datatype error = TypeError | SyntaxError | UnhandledError | LocatorError

text \<open>The \<open>typeof\<close> operator.\<close>

fun typeof :: "jsval \<Rightarrow> string" where
  "typeof JUndefined = ''undefined''"
| "typeof JNull = ''object''"
| "typeof (JBool b) = ''boolean''"
| "typeof (JNumber n) = ''number''"
| "typeof (JBigInt n) = ''bigint''"
| "typeof (JString s) = ''string''"
| "typeof (JSymbol s) = ''symbol''"
| "typeof (JFunction f) = ''function''"
| "typeof (JArray xs) = ''object''"
| "typeof (JObject kvs) = ''object''"
| "typeof (JBuffer b) = ''object''"

text \<open>
  What the client takes from the runtime and from its collaborators, as parameters:
  \<open>JSON.stringify\<close> (\<open>None\<close>: it throws), \<open>JSON.parse\<close> (\<open>None\<close>: it throws a
  SyntaxError), the string conversion of a value, the bytes \<open>Buffer.from\<close> makes of an
  object that is neither a Buffer nor null (\<open>None\<close>: it throws), the socket's
  \<open>bufferedAmount\<close> after a \<open>ws.send\<close> as a function of the amount before and the data,
  the host data of the Telemetry record, the heartbeat period and the hub URL the locator
  resolves (\<open>None\<close>: the lookup rejects).
\<close>

record platform =
  JSON_stringify :: "jsval \<Rightarrow> string option"
  JSON_parse :: "string \<Rightarrow> jsval option"
  ToString :: "jsval \<Rightarrow> string"
  Buffer_from_object :: "jsval \<Rightarrow> string option"
  buffered_after_send :: "nat \<Rightarrow> jsval \<Rightarrow> nat"
  os_hostname :: string
  process_pid :: int
  process_usage :: jsval
  heartbeatms :: nat
  resolveUrl :: "string option"

section \<open>Wire Codec\<close>

text \<open>
  \<open>primitives.encode\<close> and \<open>primitives.decode\<close> are tables indexed by \<open>typeof msg\<close>.
  A kind with no entry (boolean, bigint, function) yields \<open>undefined\<close>, and calling it
  throws a TypeError. The symbol and undefined entries write to the console and return
  \<open>undefined\<close>. \<open>encode\<close> and \<open>decode\<close> give the result of the call together with the
  lines written to the console.
\<close>

definition Buffer_from :: "platform \<Rightarrow> jsval \<Rightarrow> error + string" where
  "Buffer_from P v =
     (case v of
        JBuffer b \<Rightarrow> Inr b
      | JString s \<Rightarrow> Inr s
      | JArray xs \<Rightarrow> (case Buffer_from_object P v of None \<Rightarrow> Inl TypeError | Some b \<Rightarrow> Inr b)
      | JObject kvs \<Rightarrow> (case Buffer_from_object P v of None \<Rightarrow> Inl TypeError | Some b \<Rightarrow> Inr b)
      | _ \<Rightarrow> Inl TypeError)"

definition encode_json :: "platform \<Rightarrow> jsval \<Rightarrow> error + jsval" where
  "encode_json P msg =
     (case JSON_stringify P msg of None \<Rightarrow> Inl TypeError | Some s \<Rightarrow> Inr (JBuffer s))"

definition encode :: "platform \<Rightarrow> jsval \<Rightarrow> (error + jsval) \<times> string list" where
  "encode P msg =
     (if typeof msg = ''object'' then (encode_json P msg, [])
      else if typeof msg = ''string'' then (encode_json P msg, [])
      else if typeof msg = ''number'' then (encode_json P msg, [])
      else if typeof msg = ''symbol'' then (Inr JUndefined, [''unsupported''])
      else if typeof msg = ''undefined'' then (Inr JUndefined, [''undefined''])
      else (Inl TypeError, []))"

definition decode_json :: "platform \<Rightarrow> jsval \<Rightarrow> error + jsval" where
  "decode_json P msg =
     (case Buffer_from P msg of
        Inl e \<Rightarrow> Inl e
      | Inr b \<Rightarrow> (case JSON_parse P b of None \<Rightarrow> Inl SyntaxError | Some v \<Rightarrow> Inr v))"

definition decode :: "platform \<Rightarrow> jsval \<Rightarrow> (error + jsval) \<times> string list" where
  "decode P msg =
     (if typeof msg = ''object'' then (decode_json P msg, [])
      else if typeof msg = ''string'' then (Inr msg, [])
      else if typeof msg = ''number'' then (Inr msg, [])
      else if typeof msg = ''symbol'' then (Inr msg, [])
      else if typeof msg = ''undefined'' then (Inr JUndefined, [''undefined''])
      else (Inl TypeError, []))"

text \<open>\<open>decode(encode(v))\<close>: an exception of either call propagates.\<close>

definition decode_encode :: "platform \<Rightarrow> jsval \<Rightarrow> (error + jsval) \<times> string list" where
  "decode_encode P v =
     (case encode P v of
        (Inl e, out) \<Rightarrow> (Inl e, out)
      | (Inr b, out) \<Rightarrow> (case decode P b of (r, out') \<Rightarrow> (r, out @ out')))"

text \<open>A plain object, a string or a number.\<close>

fun envelope_kind :: "jsval \<Rightarrow> bool" where
  "envelope_kind (JObject kvs) = True"
| "envelope_kind (JString s) = True"
| "envelope_kind (JNumber n) = True"
| "envelope_kind _ = False"

text \<open>
  A platform for closed examples: its JSON functions are a finite table of values and
  their texts, and a send leaves nothing buffered.
\<close>

definition table_platform :: "(jsval \<times> string) list \<Rightarrow> platform" where
  "table_platform tbl =
     \<lparr> JSON_stringify = map_of tbl,
       JSON_parse = map_of (map (\<lambda>(v, s). (s, v)) tbl),
       ToString = (\<lambda>x. ''[object Object]''),
       Buffer_from_object = (\<lambda>x. None),
       buffered_after_send = (\<lambda>n d. 0),
       os_hostname = ''host'',
       process_pid = 1,
       process_usage = JObject [],
       heartbeatms = 10000,
       resolveUrl = Some ''ws://webswitch.local:80'' \<rparr>"

section \<open>Client state\<close>

text \<open>
  The socket as the client reads it: \<open>readyState\<close> (0 CONNECTING, 1 OPEN, 2 CLOSING,
  3 CLOSED) and \<open>bufferedAmount\<close>. The calls made on the socket, the console, the timers,
  the file system and the listeners are recorded in order in \<open>trace\<close>. Output under the
  \<open>debug\<close> flag is left out.
\<close>

record socket =
  readyState :: nat
  bufferedAmount :: nat

definition WS_OPEN :: nat where
  "WS_OPEN = 1"

record client_options =
  listServices :: "jsval option"

datatype task = TConnect | THeartbeat | TSendQueuedMsgs

text \<open>
  A listener is a handle: a subscriber of the embedding process, or the error detector of
  the Fault Interceptor. Calling one is recorded; listeners are taken to return normally.
\<close>

datatype listener = Subscriber nat | BreakerDetector

datatype effect =
    ConsoleLog string
  | WsSend jsval
  | WsPing
  | WsRemoveAllListeners
  | WsClose nat string
  | WsTerminate
  | Invoke listener jsval
  | SetTimeout nat task
  | ClearTimeout nat
  | DetectErrors
  | BreakerInvoke jsval
  | FsStat
  | FsWrite string

record queue_file =
  fsize :: nat
  contents :: string

record client =
  ws :: "socket option"
  options :: "client_options option"
  serviceList :: jsval
  pong :: bool
  timerId :: nat
  reconnecting :: bool
  sendQueue :: "jsval list"
  sendQueueLimit :: nat
  registry :: "(string \<times> listener) list"
  breaker_closed :: bool
  timers :: "(nat \<times> nat \<times> task) list"
  next_timer :: nat
  senderQueue_json :: "queue_file option"
  trace :: "effect list"

definition TIMEOUTEVENT :: string where
  "TIMEOUTEVENT = ''webswitchTimeout''"

definition CONNECTERROR :: string where
  "CONNECTERROR = ''webswitchConnect''"

definition WSOCKETERROR :: string where
  "WSOCKETERROR = ''webswitchWsocket''"

text \<open>
  The constructor. The listener registry, the breaker session and the persisted queue file
  exist outside the instance and are passed in.
\<close>

definition new_client :: "(string \<times> listener) list \<Rightarrow> bool \<Rightarrow> queue_file option \<Rightarrow> client" where
  "new_client reg br f =
     \<lparr> ws = None, options = None, serviceList = JArray [], pong = True, timerId = 0,
       reconnecting = False, sendQueue = [], sendQueueLimit = 20, registry = reg,
       breaker_closed = br, timers = [], next_timer = 1, senderQueue_json = f, trace = [] \<rparr>"

definition record_effects :: "effect list \<Rightarrow> client \<Rightarrow> client" where
  "record_effects es c = c\<lparr>trace := trace c @ es\<rparr>"

definition setTimeout :: "task \<Rightarrow> nat \<Rightarrow> client \<Rightarrow> nat \<times> client" where
  "setTimeout t ms c =
     (next_timer c,
      c\<lparr>timers := timers c @ [(next_timer c, ms, t)],
        next_timer := Suc (next_timer c),
        trace := trace c @ [SetTimeout ms t]\<rparr>)"

definition clearTimeout :: "nat \<Rightarrow> client \<Rightarrow> client" where
  "clearTimeout i c =
     c\<lparr>timers := filter (\<lambda>(j, ms, t). j \<noteq> i) (timers c),
       trace := trace c @ [ClearTimeout i]\<rparr>"

section \<open>Event emitter\<close>

definition subscribe :: "string \<Rightarrow> listener \<Rightarrow> client \<Rightarrow> client" where
  "subscribe eventName callback c = c\<lparr>registry := registry c @ [(eventName, callback)]\<rparr>"

definition listeners :: "client \<Rightarrow> string \<Rightarrow> listener list" where
  "listeners c eventName = map snd (filter (\<lambda>(k, l). k = eventName) (registry c))"

definition invoke_all :: "listener list \<Rightarrow> jsval \<Rightarrow> client \<Rightarrow> client" where
  "invoke_all ls arg c = record_effects (map (\<lambda>l. Invoke l arg) ls) c"

text \<open>\<open>emit\<close> throws when the event \<open>error\<close> has no listener.\<close>

definition emit :: "string \<Rightarrow> jsval \<Rightarrow> client \<Rightarrow> error + client" where
  "emit eventName arg c =
     (if eventName = ''error'' \<and> listeners c eventName = [] then Inl UnhandledError
      else Inr (invoke_all (listeners c eventName) arg c))"

section \<open>Closing, telemetry\<close>

definition close :: "nat \<Rightarrow> string \<Rightarrow> client \<Rightarrow> error + client" where
  "close code reason c =
     (case ws c of
        None \<Rightarrow> Inl TypeError
      | Some s \<Rightarrow>
          Inr (record_effects
                 [ConsoleLog ''closing socket'', WsRemoveAllListeners, WsClose code reason,
                  WsTerminate] c
               \<lparr>ws := None\<rparr>))"

definition services :: "client \<Rightarrow> error + jsval \<times> client" where
  "services c =
     (case options c of
        None \<Rightarrow> Inl TypeError
      | Some opts \<Rightarrow>
          (case listServices opts of
             Some v \<Rightarrow> Inr (v, c\<lparr>serviceList := v\<rparr>)
           | None \<Rightarrow> Inr (serviceList c, c)))"

definition telemetry_record :: "platform \<Rightarrow> jsval \<Rightarrow> socket option \<Rightarrow> jsval" where
  "telemetry_record P svc sock =
     JObject
       [(''eventName'', JString ''telemetry''),
        (''proto'', JString ''webswitch''),
        (''hostname'', JString (os_hostname P)),
        (''role'', JString ''node''),
        (''pid'', JNumber (process_pid P)),
        (''telemetry'', process_usage P),
        (''services'', svc),
        (''state'',
           (case sock of
              None \<Rightarrow> JString ''undefined''
            | Some s \<Rightarrow>
                if readyState s = 0 then JString ''undefined''
                else JNumber (int (readyState s))))]"

definition telemetry :: "platform \<Rightarrow> client \<Rightarrow> error + jsval \<times> client" where
  "telemetry P c =
     (case services c of
        Inl e \<Rightarrow> Inl e
      | Inr (svc, c') \<Rightarrow> Inr (telemetry_record P svc (ws c'), c'))"

text \<open>The value \<open>services()\<close> returns, given the stored list and the options.\<close>

definition current_services :: "jsval \<Rightarrow> client_options \<Rightarrow> jsval" where
  "current_services sl opts = (case listServices opts of Some v \<Rightarrow> v | None \<Rightarrow> sl)"

section \<open>Sending and the Send Queue\<close>

text \<open>The guard of \<open>send\<close>: a socket exists, it is open, and nothing is buffered.\<close>

definition can_transmit :: "client \<Rightarrow> bool" where
  "can_transmit c =
     (case ws c of None \<Rightarrow> False | Some s \<Rightarrow> readyState s = WS_OPEN \<and> bufferedAmount s < 1)"

text \<open>The function \<open>send\<close> wraps in the breaker: \<open>this.ws.send(this.encode(msg))\<close>.\<close>

definition ws_send :: "platform \<Rightarrow> jsval \<Rightarrow> client \<Rightarrow> client" where
  "ws_send P d c =
     (case ws c of
        None \<Rightarrow> c
      | Some s \<Rightarrow>
          record_effects [WsSend d]
            (c\<lparr>ws := Some (s\<lparr>bufferedAmount := buffered_after_send P (bufferedAmount s) d\<rparr>)\<rparr>))"

definition wrapped_transmit :: "platform \<Rightarrow> jsval \<Rightarrow> client \<Rightarrow> error + client" where
  "wrapped_transmit P msg c =
     (case encode P msg of
        (Inl e, out) \<Rightarrow> Inl e
      | (Inr d, out) \<Rightarrow> Inr (ws_send P d (record_effects (map ConsoleLog out) c)))"

text \<open>
  Modelled from the spec: the Fault Interceptor (\<open>domain/circuit-breaker.js\<close>), of which
  the client uses \<open>detectErrors(eventNames, emitterSource)\<close> and \<open>invoke\<close>. Its session
  tracks failures observed via the named events raised by the client, so \<open>detectErrors\<close>
  registers its detector on the client under each name; \<open>invoke\<close> runs the wrapped
  transmit unless the breaker has suspended sending, and a failure of the wrapped function
  is the breaker's to count, not the caller's.
\<close>

definition breaker_detectErrors :: "string list \<Rightarrow> client \<Rightarrow> client" where
  "breaker_detectErrors eventNames c =
     record_effects [DetectErrors]
       (c\<lparr>registry := registry c @ map (\<lambda>n. (n, BreakerDetector)) eventNames\<rparr>)"

definition breaker_invoke :: "platform \<Rightarrow> jsval \<Rightarrow> client \<Rightarrow> client" where
  "breaker_invoke P msg c =
     (let c' = record_effects [BreakerInvoke msg] c in
      if breaker_closed c' then
        (case wrapped_transmit P msg c' of Inl e \<Rightarrow> c' | Inr c'' \<Rightarrow> c'')
      else c')"

datatype send_path = Transmit | Enqueue | Overflow

text \<open>Which branch of \<open>send\<close> a client state selects.\<close>

definition send_path_of :: "client \<Rightarrow> send_path" where
  "send_path_of c =
     (if can_transmit c then Transmit
      else if length (sendQueue c) < sendQueueLimit c then Enqueue
      else Overflow)"

text \<open>
  \<open>send\<close>, \<open>manageSendQueue\<close>, the synchronous part of \<open>saveSendQueue\<close>, the resend
  callback that \<open>manageSendQueue\<close> passes to it, and \<open>sendQueuedMsgs\<close> call one another.
  The fuel bounds the iterations of the loop of \<open>sendQueuedMsgs\<close> and with them the depth
  of the calls; \<open>None\<close> is a call that has not returned within the fuel. The callback
  resolves with the queue it was given; \<open>sendQueuedMsgs\<close> takes no argument and drains
  \<open>this.sendQueue\<close>, last entry first. The test \<open>length < 1.5 * limit\<close> is written in
  whole numbers. In the spill branch \<open>saveSendQueue\<close> starts \<open>stat\<close> and suspends; the
  rest runs in \<open>saveSendQueue_resume\<close>. The engine's stack limit is not modelled: the
  RangeError of an exhausted stack is caught by the \<open>try\<close> of \<open>sendQueuedMsgs\<close>, and
  the loop of the call above it goes on.
\<close>

fun send :: "platform \<Rightarrow> nat \<Rightarrow> client \<Rightarrow> jsval \<Rightarrow> (bool \<times> client) option"
  and manageSendQueue :: "platform \<Rightarrow> nat \<Rightarrow> client \<Rightarrow> jsval \<Rightarrow> client option"
  and saveSendQueue :: "platform \<Rightarrow> nat \<Rightarrow> client \<Rightarrow> client option"
  and sender :: "platform \<Rightarrow> nat \<Rightarrow> client \<Rightarrow> jsval \<Rightarrow> (jsval \<times> client) option"
  and sendQueuedMsgs :: "platform \<Rightarrow> nat \<Rightarrow> client \<Rightarrow> client option"
where
  "send P n c msg =
     (if can_transmit c then
        Some (True,
              breaker_invoke P msg
                (breaker_detectErrors [TIMEOUTEVENT, CONNECTERROR, WSOCKETERROR] c))
      else if length (sendQueue c) < sendQueueLimit c then
        Some (False, c\<lparr>sendQueue := sendQueue c @ [msg]\<rparr>)
      else
        (case manageSendQueue P n c msg of
           None \<Rightarrow> None
         | Some c' \<Rightarrow> Some (False, c')))"
| "manageSendQueue P n c msg = saveSendQueue P n (c\<lparr>sendQueue := sendQueue c @ [msg]\<rparr>)"
| "saveSendQueue P n c =
     (if 2 * length (sendQueue c) < 3 * sendQueueLimit c then
        (case sender P n c (JArray (sendQueue c)) of
           None \<Rightarrow> None
         | Some (unsent, c') \<Rightarrow> Some c')
      else Some (record_effects [FsStat] c))"
| "sender P n c queue =
     (case sendQueuedMsgs P n c of None \<Rightarrow> None | Some c' \<Rightarrow> Some (queue, c'))"
| "sendQueuedMsgs P 0 c = None"
| "sendQueuedMsgs P (Suc n) c =
     (if sendQueue c = [] then Some c
      else
        (case send P n (c\<lparr>sendQueue := butlast (sendQueue c)\<rparr>) (last (sendQueue c)) of
           None \<Rightarrow> None
         | Some (r, c') \<Rightarrow> sendQueuedMsgs P n c'))"

text \<open>
  The rest of \<open>saveSendQueue\<close>, run when \<open>stat\<close> calls back, for any callback
  \<open>resend\<close> (\<open>manageSendQueue\<close> passes \<open>sender P n\<close>). With no file, \<open>stats\<close> is
  undefined and the callback throws outside every handler (\<open>Some (Inl TypeError)\<close>). A
  file above 99999999 bytes ends the call with a log line. Otherwise the stored queue is
  parsed and concatenated with \<open>this.sendQueue\<close> (a stored string is concatenated as a
  string; any other stored value has no \<open>concat\<close>), the callback is called with the result,
  and what the callback resolves with is written to the file. Exceptions are caught and
  logged.
\<close>

definition stored_concat :: "platform \<Rightarrow> jsval \<Rightarrow> jsval list \<Rightarrow> error + jsval" where
  "stored_concat P stored q =
     (case stored of
        JArray xs \<Rightarrow> Inr (JArray (xs @ q))
      | JString s \<Rightarrow> Inr (JString (s @ ToString P (JArray q)))
      | _ \<Rightarrow> Inl TypeError)"

definition writeFileSync :: "string \<Rightarrow> client \<Rightarrow> client" where
  "writeFileSync s c =
     record_effects [FsWrite s]
       (c\<lparr>senderQueue_json := Some \<lparr>fsize = length s, contents = s\<rparr>\<rparr>)"

definition saveSendQueue_resume ::
  "platform \<Rightarrow> (client \<Rightarrow> jsval \<Rightarrow> (jsval \<times> client) option) \<Rightarrow> client \<Rightarrow> (error + client) option"
where
  "saveSendQueue_resume P resend c =
     (case senderQueue_json c of
        None \<Rightarrow> Some (Inl TypeError)
      | Some f \<Rightarrow>
          if fsize f > 99999999 then
            Some (Inr (record_effects [ConsoleLog ''queue backing store too large''] c))
          else
            (case JSON_parse P (contents f) of
               None \<Rightarrow> Some (Inr (record_effects [ConsoleLog ''saveSendQueue error''] c))
             | Some storedQueue \<Rightarrow>
                 (case stored_concat P storedQueue (sendQueue c) of
                    Inl e \<Rightarrow> Some (Inr (record_effects [ConsoleLog ''saveSendQueue error''] c))
                  | Inr concatQueue \<Rightarrow>
                      (case resend c concatQueue of
                         None \<Rightarrow> None
                       | Some (unsentQueue, c') \<Rightarrow>
                           (case JSON_stringify P unsentQueue of
                              None \<Rightarrow>
                                Some (Inr (record_effects [ConsoleLog ''saveSendQueue error''] c'))
                            | Some s \<Rightarrow> Some (Inr (writeFileSync s c')))))))"

text \<open>
  \<open>saveSendQueue(sender)\<close> as a whole, for any callback, when \<open>stat\<close> calls back
  before any other event is handled. \<open>saveSendQueue\<close> above is its synchronous part for
  the callback of \<open>manageSendQueue\<close>.
\<close>

definition saveSendQueue_run ::
  "platform \<Rightarrow> (client \<Rightarrow> jsval \<Rightarrow> (jsval \<times> client) option) \<Rightarrow> client \<Rightarrow> (error + client) option"
where
  "saveSendQueue_run P resend c =
     (if 2 * length (sendQueue c) < 3 * sendQueueLimit c then
        (case resend c (JArray (sendQueue c)) of
           None \<Rightarrow> None
         | Some (unsent, c') \<Rightarrow> Some (Inr c'))
      else saveSendQueue_resume P resend (record_effects [FsStat] c))"

text \<open>
  What the function wrapped in the breaker does when \<open>send\<close> takes the transmit branch:
  nothing when the breaker has suspended sending or \<open>encode\<close> throws, otherwise the
  console lines of \<open>encode\<close> and the call of \<open>ws.send\<close>.
\<close>

definition transmit_effects :: "platform \<Rightarrow> client \<Rightarrow> jsval \<Rightarrow> effect list" where
  "transmit_effects P c msg =
     (if breaker_closed c then
        (case encode P msg of
           (Inl e, out) \<Rightarrow> []
         | (Inr d, out) \<Rightarrow> map ConsoleLog out @ [WsSend d])
      else [])"

section \<open>Heartbeat, connection and socket events\<close>

text \<open>
  \<open>heartbeat\<close>. With \<open>pong\<close> set it clears the flag, pings (a TypeError when no socket
  exists) and schedules itself; otherwise, unless a reconnect is under way, it closes with
  4877, schedules \<open>connect\<close> in 5 s and emits the timeout event with the Telemetry.
\<close>

definition heartbeat :: "platform \<Rightarrow> client \<Rightarrow> error + client" where
  "heartbeat P c =
     (if pong c then
        (case ws c of
           None \<Rightarrow> Inl TypeError
         | Some s \<Rightarrow>
             (let (i, c') = setTimeout THeartbeat (heartbeatms P)
                              (record_effects [WsPing] (c\<lparr>pong := False\<rparr>))
              in Inr (c'\<lparr>timerId := i\<rparr>)))
      else if reconnecting c then Inr c
      else
        (case close 4877 ''timeout''
                (record_effects [ConsoleLog ''timeout''] (c\<lparr>reconnecting := True\<rparr>)) of
           Inl e \<Rightarrow> Inl e
         | Inr c1 \<Rightarrow>
             (case telemetry P (snd (setTimeout TConnect 5000 c1)) of
                Inl e \<Rightarrow> Inl e
              | Inr (t, c2) \<Rightarrow> emit TIMEOUTEVENT t c2)))"

text \<open>
  \<open>connect\<close>: nothing when a socket exists; otherwise the options are stored, the URL is
  resolved and a socket in state CONNECTING is created with the handlers below.
\<close>

definition connect :: "platform \<Rightarrow> client_options \<Rightarrow> client \<Rightarrow> error + client" where
  "connect P opts c =
     (case ws c of
        Some s \<Rightarrow> Inr (record_effects [ConsoleLog ''conn already open''] c)
      | None \<Rightarrow>
          (case resolveUrl P of
             None \<Rightarrow> Inl LocatorError
           | Some u \<Rightarrow>
               Inr (c\<lparr>options := Some opts,
                      ws := Some \<lparr>readyState = 0, bufferedAmount = 0\<rparr>\<rparr>)))"

text \<open>The handler of the socket's \<open>close\<close> event.\<close>

definition on_close :: "nat \<Rightarrow> string \<Rightarrow> client \<Rightarrow> error + client" where
  "on_close code reason c =
     (case emit CONNECTERROR (JBuffer reason)
             (record_effects [ConsoleLog ''received close frame''] c) of
        Inl e \<Rightarrow> Inl e
      | Inr c1 \<Rightarrow>
          if code \<in> set [1006, 4040] then
            (if reconnecting c1 then Inr c1
             else
               (case close code reason (clearTimeout (timerId c1) (c1\<lparr>reconnecting := True\<rparr>)) of
                  Inl e \<Rightarrow> Inl e
                | Inr c2 \<Rightarrow> Inr (snd (setTimeout TConnect 8000 c2))))
          else Inr c1)"

text \<open>
  The handler of the socket's \<open>open\<close> event. \<open>None\<close>: \<open>send\<close> has not returned within
  the fuel; \<open>Some (Inl e)\<close>: an exception leaves the handler.
\<close>

definition on_open :: "platform \<Rightarrow> nat \<Rightarrow> client \<Rightarrow> (error + client) option" where
  "on_open P n c =
     (case telemetry P (record_effects [ConsoleLog ''connection open''] c\<lparr>reconnecting := False\<rparr>) of
        Inl e \<Rightarrow> Some (Inl e)
      | Inr (t, c1) \<Rightarrow>
          (case send P n c1 t of
             None \<Rightarrow> None
           | Some (r, c2) \<Rightarrow>
               (case heartbeat P c2 of
                  Inl e \<Rightarrow> Some (Inl e)
                | Inr c3 \<Rightarrow> Some (Inr (snd (setTimeout TSendQueuedMsgs 1000 c3))))))"

text \<open>
  The handler of the socket's \<open>message\<close> event. Reading \<open>event.eventName\<close> throws on
  \<open>null\<close> and \<open>undefined\<close>; a value that is not an object has no such property. Every
  exception is caught and logged.
\<close>

fun get_eventName :: "jsval \<Rightarrow> error + jsval" where
  "get_eventName JUndefined = Inl TypeError"
| "get_eventName JNull = Inl TypeError"
| "get_eventName (JObject kvs) =
     (case map_of kvs ''eventName'' of None \<Rightarrow> Inr JUndefined | Some v \<Rightarrow> Inr v)"
| "get_eventName v = Inr JUndefined"

fun truthy :: "jsval \<Rightarrow> bool" where
  "truthy JUndefined = False"
| "truthy JNull = False"
| "truthy (JBool b) = b"
| "truthy (JNumber n) = (n \<noteq> 0)"
| "truthy (JBigInt n) = (n \<noteq> 0)"
| "truthy (JString s) = (s \<noteq> [])"
| "truthy v = True"

definition event_key :: "platform \<Rightarrow> jsval \<Rightarrow> string" where
  "event_key P v = (case v of JString s \<Rightarrow> s | _ \<Rightarrow> ToString P v)"

definition on_message :: "platform \<Rightarrow> jsval \<Rightarrow> client \<Rightarrow> client" where
  "on_message P message c =
     (case decode P message of
        (Inl e, out) \<Rightarrow> record_effects (map ConsoleLog out @ [ConsoleLog ''connect error'']) c
      | (Inr event, out) \<Rightarrow>
          (let c0 = record_effects (map ConsoleLog out) c in
           case get_eventName event of
             Inl e \<Rightarrow> record_effects [ConsoleLog ''connect error''] c0
           | Inr name \<Rightarrow>
               if \<not> truthy name then
                 (case emit ''missingEventName'' event c0 of
                    Inl e \<Rightarrow> record_effects [ConsoleLog ''connect error''] c0
                  | Inr c1 \<Rightarrow> c1)
               else
                 (case emit (event_key P name) event c0 of
                    Inl e \<Rightarrow> record_effects [ConsoleLog ''connect error''] c0
                  | Inr c1 \<Rightarrow> invoke_all (listeners c1 ''*'') event c1)))"

definition on_error :: "jsval \<Rightarrow> client \<Rightarrow> error + client" where
  "on_error err c =
     (case emit WSOCKETERROR err c of
        Inl e \<Rightarrow> Inl e
      | Inr c1 \<Rightarrow> Inr (record_effects [ConsoleLog ''connect error''] c1))"

definition on_pong :: "client \<Rightarrow> client" where
  "on_pong c = c\<lparr>pong := True\<rparr>"

text \<open>\<open>publish\<close>: \<open>connect()\<close> with no options, then \<open>send\<close>.\<close>

definition publish :: "platform \<Rightarrow> nat \<Rightarrow> client \<Rightarrow> jsval \<Rightarrow> (error + client) option" where
  "publish P n c msg =
     (case connect P \<lparr>listServices = None\<rparr> c of
        Inl e \<Rightarrow> Some (Inl e)
      | Inr c1 \<Rightarrow> (case send P n c1 msg of None \<Rightarrow> None | Some (r, c2) \<Rightarrow> Some (Inr c2)))"

section \<open>Scenarios\<close>

text \<open>Envelopes published one after another, each \<open>publish\<close> awaited before the next.\<close>

fun publish_all :: "platform \<Rightarrow> nat \<Rightarrow> client \<Rightarrow> jsval list \<Rightarrow> (error + client) option" where
  "publish_all P n c [] = Some (Inr c)"
| "publish_all P n c (m # ms) =
     (case publish P n c m of
        None \<Rightarrow> None
      | Some (Inl e) \<Rightarrow> Some (Inl e)
      | Some (Inr c') \<Rightarrow> publish_all P n c' ms)"

definition envelope :: "int \<Rightarrow> jsval" where
  "envelope i = JObject [(''eventName'', JString ''x''), (''seq'', JNumber i)]"

text \<open>The socket reaches the state OPEN (its \<open>open\<close> event follows).\<close>

definition socket_opens :: "client \<Rightarrow> client" where
  "socket_opens c =
     (case ws c of None \<Rightarrow> c | Some s \<Rightarrow> c\<lparr>ws := Some (s\<lparr>readyState := WS_OPEN\<rparr>)\<rparr>)"

text \<open>
  A heartbeat timeout and the reconnection after it: \<open>connect\<close>, the socket opens, the
  heartbeat timer fires before any pong has arrived, the reconnect timer runs \<open>connect\<close>,
  the new socket opens. The queue is empty throughout, so the flush timers do nothing.
\<close>

definition reconnect_after_timeout :: "platform \<Rightarrow> client \<Rightarrow> (error + client) option" where
  "reconnect_after_timeout P c =
     (case connect P \<lparr>listServices = None\<rparr> c of
        Inl e \<Rightarrow> Some (Inl e)
      | Inr c1 \<Rightarrow>
          (case on_open P 0 (socket_opens c1) of
             None \<Rightarrow> None
           | Some (Inl e) \<Rightarrow> Some (Inl e)
           | Some (Inr c2) \<Rightarrow>
               (case heartbeat P c2 of
                  Inl e \<Rightarrow> Some (Inl e)
                | Inr c3 \<Rightarrow>
                    (case connect P \<lparr>listServices = None\<rparr> c3 of
                       Inl e \<Rightarrow> Some (Inl e)
                     | Inr c4 \<Rightarrow> on_open P 0 (socket_opens c4)))))"

text \<open>The same run up to the moment the new socket has opened, before its handler runs.\<close>

definition reopened_after_timeout :: "platform \<Rightarrow> client \<Rightarrow> (error + client) option" where
  "reopened_after_timeout P c =
     (case connect P \<lparr>listServices = None\<rparr> c of
        Inl e \<Rightarrow> Some (Inl e)
      | Inr c1 \<Rightarrow>
          (case on_open P 0 (socket_opens c1) of
             None \<Rightarrow> None
           | Some (Inl e) \<Rightarrow> Some (Inl e)
           | Some (Inr c2) \<Rightarrow>
               (case heartbeat P c2 of
                  Inl e \<Rightarrow> Some (Inl e)
                | Inr c3 \<Rightarrow>
                    (case connect P \<lparr>listServices = None\<rparr> c3 of
                       Inl e \<Rightarrow> Some (Inl e)
                     | Inr c4 \<Rightarrow> Some (Inr (socket_opens c4))))))"

text \<open>
  An abnormal close, then, before the scheduled reconnect has run, a \<open>publish\<close> (which
  connects on its own), the new socket opens, and it closes abnormally as well.
\<close>

definition close_publish_open_close :: "platform \<Rightarrow> client \<Rightarrow> (error + client) option" where
  "close_publish_open_close P c =
     (case on_close 1006 ''net-drop'' c of
        Inl e \<Rightarrow> Some (Inl e)
      | Inr c1 \<Rightarrow>
          (case publish P 0 c1 (envelope 1) of
             None \<Rightarrow> None
           | Some (Inl e) \<Rightarrow> Some (Inl e)
           | Some (Inr c2) \<Rightarrow>
               (case on_open P 0 (socket_opens c2) of
                  None \<Rightarrow> None
                | Some (Inl e) \<Rightarrow> Some (Inl e)
                | Some (Inr c3) \<Rightarrow> Some (on_close 1006 ''net-drop'' c3))))"

text \<open>The platform of the closed examples below, with the texts of the values they use.\<close>

definition example_platform :: platform where
  "example_platform =
     table_platform
       [(JObject
           [(''eventName'', JString ''telemetry''), (''proto'', JString ''webswitch''),
            (''hostname'', JString ''host''), (''role'', JString ''node''),
            (''pid'', JNumber 1), (''telemetry'', JObject []), (''services'', JArray []),
            (''state'', JNumber 1)],
         ''{\"eventName\":\"telemetry\",\"proto\":\"webswitch\",\"hostname\":\"host\",\"role\":\"node\",\"pid\":1,\"telemetry\":{},\"services\":[],\"state\":1}''),
        (envelope 1, ''{\"eventName\":\"x\",\"seq\":1}''),
        (envelope 2, ''{\"eventName\":\"x\",\"seq\":2}''),
        (JArray [], ''[]''),
        (JArray [envelope 1], ''[{\"eventName\":\"x\",\"seq\":1}]''),
        (JArray [envelope 1, envelope 2],
         ''[{\"eventName\":\"x\",\"seq\":1},{\"eventName\":\"x\",\"seq\":2}]'')]"

text \<open>
  The effects of transmitting the given messages one after another through \<open>send\<close>.
\<close>

definition sent_frames :: "platform \<Rightarrow> jsval list \<Rightarrow> effect list" where
  "sent_frames P ms =
     concat (map (\<lambda>m. [DetectErrors, BreakerInvoke m,
                         WsSend (JBuffer (the (JSON_stringify P m)))]) ms)"

section \<open>Auxiliary facts\<close>

lemma ws_after_close: "close code reason c = Inr c' \<Longrightarrow> ws c' = None"
  by (auto simp: close_def record_effects_def split: option.splits)

lemma ws_new_client: "ws (new_client reg br f) = None"
  by (simp add: new_client_def)

lemma emit_not_error:
  "eventName \<noteq> ''error'' \<Longrightarrow>
   emit eventName arg c = Inr (invoke_all (listeners c eventName) arg c)"
  by (simp add: emit_def)

lemma on_close_reconnect:
  assumes "code = 1006 \<or> code = 4040" and "\<not> reconnecting c" and "ws c = Some s"
  shows "\<exists>c'. on_close code reason c = Inr c' \<and> reconnecting c' \<and> ws c' = None \<and>
     timers c' =
       filter (\<lambda>(j, ms, t). j \<noteq> timerId c) (timers c) @ [(next_timer c, 8000, TConnect)] \<and>
     trace c' =
       trace c @ [ConsoleLog ''received close frame'']
         @ map (\<lambda>l. Invoke l (JBuffer reason)) (listeners c CONNECTERROR)
         @ [ClearTimeout (timerId c), ConsoleLog ''closing socket'', WsRemoveAllListeners,
            WsClose code reason, WsTerminate, SetTimeout 8000 TConnect]"
  using assms
  by (auto simp: on_close_def emit_def CONNECTERROR_def invoke_all_def record_effects_def
      listeners_def close_def clearTimeout_def setTimeout_def)

lemma on_close_guard:
  assumes "reconnecting c"
  shows "\<exists>c'. on_close code reason c = Inr c' \<and> timers c' = timers c \<and> reconnecting c' \<and>
     trace c' =
       trace c @ [ConsoleLog ''received close frame'']
         @ map (\<lambda>l. Invoke l (JBuffer reason)) (listeners c CONNECTERROR)"
  using assms
  by (auto simp: on_close_def emit_def CONNECTERROR_def invoke_all_def record_effects_def
      listeners_def)

text \<open>
  A queue at its limit and below one and a half times it, with nothing transmittable:
  \<open>send\<close> pushes, the callback drains, the drain pops the entry and sends it again in the
  same state. No fuel lets the call return.
\<close>

lemma send_overflow_diverges:
  assumes "\<not> can_transmit c" and "sendQueueLimit c \<le> length (sendQueue c)"
    and "2 * (length (sendQueue c) + 1) < 3 * sendQueueLimit c"
  shows "send P n c msg = None"
  using assms
proof (induction n arbitrary: c msg)
  case 0
  then show ?case by simp
next
  case (Suc n)
  let ?c1 = "c\<lparr>sendQueue := sendQueue c @ [msg]\<rparr>"
  have "send P n (?c1\<lparr>sendQueue := butlast (sendQueue ?c1)\<rparr>) (last (sendQueue ?c1)) =
        send P n c msg"
    by simp
  moreover have "send P n c msg = None" using Suc by blast
  ultimately show ?case using Suc.prems by simp
qed

text \<open>Where \<open>send\<close> returns, it returns true exactly on the transmit branch.\<close>

lemma send_transmit_branch:
  "can_transmit c \<Longrightarrow> \<exists>c'. send P n c msg = Some (True, c')"
  by simp

lemma send_enqueue_branch:
  "\<not> can_transmit c \<Longrightarrow> length (sendQueue c) < sendQueueLimit c \<Longrightarrow>
   send P n c msg = Some (False, c\<lparr>sendQueue := sendQueue c @ [msg]\<rparr>)"
  by simp

lemma send_result_is_path:
  "send P n c msg = Some (r, c') \<Longrightarrow> r = (send_path_of c = Transmit)"
  by (auto simp: send_path_of_def split: if_splits option.splits)

lemma connect_disconnected:
  assumes "resolveUrl P = Some u" and "\<not> can_transmit c"
  shows "\<exists>c'. connect P opts c = Inr c' \<and> \<not> can_transmit c' \<and> sendQueue c' = sendQueue c \<and>
     sendQueueLimit c' = sendQueueLimit c \<and> senderQueue_json c' = senderQueue_json c \<and>
     FsStat \<notin> set (trace c') - set (trace c)"
  using assms
  by (auto simp: connect_def can_transmit_def WS_OPEN_def record_effects_def split: option.splits)

lemma publish_disconnected:
  assumes "resolveUrl P = Some u" and "\<not> can_transmit c"
    and "length (sendQueue c) < sendQueueLimit c"
  shows "\<exists>c'. publish P n c msg = Some (Inr c') \<and> \<not> can_transmit c' \<and>
     sendQueue c' = sendQueue c @ [msg] \<and> sendQueueLimit c' = sendQueueLimit c \<and>
     senderQueue_json c' = senderQueue_json c \<and> FsStat \<notin> set (trace c') - set (trace c)"
proof -
  from connect_disconnected [OF assms(1,2), of "\<lparr>listServices = None\<rparr>"] obtain c1 where
    c1: "connect P \<lparr>listServices = None\<rparr> c = Inr c1" "\<not> can_transmit c1"
      "sendQueue c1 = sendQueue c" "sendQueueLimit c1 = sendQueueLimit c"
      "senderQueue_json c1 = senderQueue_json c" "FsStat \<notin> set (trace c1) - set (trace c)"
    by blast
  have "send P n c1 msg = Some (False, c1\<lparr>sendQueue := sendQueue c1 @ [msg]\<rparr>)"
    using c1 assms(3) by simp
  moreover have "\<not> can_transmit (c1\<lparr>sendQueue := sendQueue c1 @ [msg]\<rparr>)"
    using c1(2) by (simp add: can_transmit_def)
  ultimately show ?thesis using c1 by (simp add: publish_def)
qed

lemma publish_all_disconnected:
  assumes "resolveUrl P = Some u" and "\<not> can_transmit c"
    and "length (sendQueue c) + length msgs \<le> sendQueueLimit c"
  shows "\<exists>c'. publish_all P n c msgs = Some (Inr c') \<and> \<not> can_transmit c' \<and>
     sendQueue c' = sendQueue c @ msgs \<and> sendQueueLimit c' = sendQueueLimit c \<and>
     senderQueue_json c' = senderQueue_json c \<and> FsStat \<notin> set (trace c') - set (trace c)"
  using assms(2,3)
proof (induction msgs arbitrary: c)
  case Nil
  then show ?case by simp
next
  case (Cons m ms)
  from Cons.prems have lt: "length (sendQueue c) < sendQueueLimit c" by simp
  from publish_disconnected [OF assms(1) Cons.prems(1) lt, of n m] obtain c1 where
    c1: "publish P n c m = Some (Inr c1)" "\<not> can_transmit c1"
      "sendQueue c1 = sendQueue c @ [m]" "sendQueueLimit c1 = sendQueueLimit c"
      "senderQueue_json c1 = senderQueue_json c" "FsStat \<notin> set (trace c1) - set (trace c)"
    by blast
  have "length (sendQueue c1) + length ms \<le> sendQueueLimit c1"
    using c1 Cons.prems by simp
  from Cons.IH [OF c1(2) this] obtain c' where
    c': "publish_all P n c1 ms = Some (Inr c')" "\<not> can_transmit c'"
      "sendQueue c' = sendQueue c1 @ ms" "sendQueueLimit c' = sendQueueLimit c1"
      "senderQueue_json c' = senderQueue_json c1" "FsStat \<notin> set (trace c') - set (trace c1)"
    by blast
  show ?case using c1 c' by auto
qed

lemma telemetry_eq:
  assumes "options c = Some opts"
  shows "telemetry P c =
     Inr (telemetry_record P (current_services (serviceList c) opts) (ws c),
          c\<lparr>serviceList := current_services (serviceList c) opts\<rparr>)"
  using assms
  by (simp add: telemetry_def services_def current_services_def split: option.splits)

lemma current_services_idem [simp]:
  "current_services (current_services sl opts) opts = current_services sl opts"
  by (simp add: current_services_def split: option.splits)

lemma typeof_telemetry_record: "typeof (telemetry_record P svc sock) = ''object''"
  by (simp add: telemetry_record_def)

lemma encode_object:
  "typeof msg = ''object'' \<Longrightarrow> JSON_stringify P msg = Some b \<Longrightarrow>
   encode P msg = (Inr (JBuffer b), [])"
  by (simp add: encode_def encode_json_def)

lemma send_transmits:
  assumes "ws c = Some s" and "readyState s = WS_OPEN" and "bufferedAmount s = 0"
    and "breaker_closed c" and "encode P msg = (Inr d, [])"
  shows "send P n c msg =
     Some (True,
       c\<lparr>registry := registry c @ [(TIMEOUTEVENT, BreakerDetector),
            (CONNECTERROR, BreakerDetector), (WSOCKETERROR, BreakerDetector)],
         ws := Some (s\<lparr>bufferedAmount := buffered_after_send P 0 d\<rparr>),
         trace := trace c @ [DetectErrors, BreakerInvoke msg, WsSend d]\<rparr>)"
  using assms
  by (simp add: can_transmit_def breaker_invoke_def breaker_detectErrors_def
      wrapped_transmit_def ws_send_def record_effects_def Let_def)

lemma heartbeat_ping:
  assumes "pong c" and "ws c = Some s"
  shows "heartbeat P c =
     Inr (c\<lparr>pong := False,
            timers := timers c @ [(next_timer c, heartbeatms P, THeartbeat)],
            next_timer := Suc (next_timer c),
            trace := trace c @ [WsPing, SetTimeout (heartbeatms P) THeartbeat],
            timerId := next_timer c\<rparr>)"
  using assms by (simp add: heartbeat_def setTimeout_def record_effects_def)

lemma heartbeat_timeout:
  assumes "\<not> pong c" and "\<not> reconnecting c" and "ws c = Some s" and "options c = Some opts"
  shows "heartbeat P c =
     Inr (c\<lparr>reconnecting := True, ws := None,
            timers := timers c @ [(next_timer c, 5000, TConnect)],
            next_timer := Suc (next_timer c),
            serviceList := current_services (serviceList c) opts,
            trace := trace c @ [ConsoleLog ''timeout'', ConsoleLog ''closing socket'',
              WsRemoveAllListeners, WsClose 4877 ''timeout'', WsTerminate,
              SetTimeout 5000 TConnect]
              @ map (\<lambda>l. Invoke l (telemetry_record P (current_services (serviceList c) opts) None))
                  (listeners c TIMEOUTEVENT)\<rparr>)"
  using assms
  by (simp add: heartbeat_def close_def record_effects_def setTimeout_def telemetry_def
      services_def current_services_def emit_def TIMEOUTEVENT_def invoke_all_def
      listeners_def split: option.splits)


lemma record_effects_Nil [simp]: "record_effects [] c = c"
  by (simp add: record_effects_def)

text \<open>\<open>decode\<close> writes to the console only where it returns \<open>undefined\<close>.\<close>

lemma decode_console_silent:
  assumes "fst (decode P message) = Inr event" and "get_eventName event = Inr name"
  shows "decode P message = (Inr event, [])"
  using assms by (auto simp: decode_def split: if_splits)

lemma registry_invoke_all [simp]: "registry (invoke_all ls arg c) = registry c"
  by (simp add: invoke_all_def record_effects_def)

lemma listeners_invoke_all [simp]: "listeners (invoke_all ls arg c) n = listeners c n"
  by (simp add: listeners_def)

lemma trace_invoke_all [simp]:
  "trace (invoke_all ls arg c) = trace c @ map (\<lambda>l. Invoke l arg) ls"
  by (simp add: invoke_all_def record_effects_def)

lemma failure_names_not_error:
  "n \<in> set [TIMEOUTEVENT, CONNECTERROR, WSOCKETERROR] \<Longrightarrow> n \<noteq> ''error'' \<and> n \<noteq> []"
  by (auto simp: TIMEOUTEVENT_def CONNECTERROR_def WSOCKETERROR_def)

lemma send_registers_detector:
  assumes "can_transmit c0" and "n \<in> set [TIMEOUTEVENT, CONNECTERROR, WSOCKETERROR]"
  shows "\<exists>c1. send P k c0 m = Some (True, c1) \<and> BreakerDetector \<in> set (listeners c1 n)"
proof -
  let ?c = "breaker_detectErrors [TIMEOUTEVENT, CONNECTERROR, WSOCKETERROR] c0"
  have r: "registry (breaker_invoke P m ?c) = registry ?c"
    by (auto simp: breaker_invoke_def Let_def record_effects_def wrapped_transmit_def
        ws_send_def split: sum.splits option.splits prod.splits)
  have "BreakerDetector \<in> set (listeners ?c n)"
    using assms(2) by (auto simp: listeners_def breaker_detectErrors_def record_effects_def)
  then have "BreakerDetector \<in> set (listeners (breaker_invoke P m ?c) n)"
    using r by (simp add: listeners_def)
  then show ?thesis using assms(1) by simp
qed

lemma resume_over_cap:
  assumes "senderQueue_json c = Some f" and "fsize f > 99999999"
  shows "saveSendQueue_resume P resend c =
     Some (Inr (record_effects [ConsoleLog ''queue backing store too large''] c))"
  using assms by (simp add: saveSendQueue_resume_def)

lemma resume_writes_callback_result:
  assumes "senderQueue_json c = Some f" and "fsize f \<le> 99999999"
    and "JSON_parse P (contents f) = Some (JArray stored)"
    and "resend c (JArray (stored @ sendQueue c)) = Some (unsent, c')"
    and "JSON_stringify P unsent = Some s"
  shows "saveSendQueue_resume P resend c = Some (Inr (writeFileSync s c'))"
  using assms by (simp add: saveSendQueue_resume_def stored_concat_def)

lemma sender_resolves_with_argument:
  "sender P n c queue = Some (unsent, c') \<Longrightarrow> unsent = queue"
  by (auto split: option.splits)

text \<open>The spill branch, reached through \<open>send\<close>.\<close>

lemma send_spills:
  assumes "\<not> can_transmit c" and "sendQueueLimit c \<le> length (sendQueue c)"
    and "3 * sendQueueLimit c \<le> 2 * (length (sendQueue c) + 1)"
  shows "send P n c msg =
     Some (False, record_effects [FsStat] (c\<lparr>sendQueue := sendQueue c @ [msg]\<rparr>))"
  using assms by simp

lemma drain_transmits_all:
  assumes "\<forall>d. buffered_after_send P 0 d = 0"
  shows "ws c = Some s \<Longrightarrow> readyState s = WS_OPEN \<Longrightarrow> bufferedAmount s = 0 \<Longrightarrow>
     breaker_closed c \<Longrightarrow>
     \<forall>m \<in> set (sendQueue c). typeof m = ''object'' \<and> JSON_stringify P m \<noteq> None \<Longrightarrow>
     length (sendQueue c) < n \<Longrightarrow>
     \<exists>c'. sendQueuedMsgs P n c = Some c' \<and> sendQueue c' = [] \<and>
       trace c' = trace c @ sent_frames P (rev (sendQueue c)) \<and>
       senderQueue_json c' = senderQueue_json c"
proof (induction n arbitrary: c s)
  case 0
  then show ?case by simp
next
  case (Suc n)
  show ?case
  proof (cases "sendQueue c = []")
    case True
    then show ?thesis by (simp add: sent_frames_def)
  next
    case False
    then obtain q m where qm: "sendQueue c = q @ [m]"
      by (metis rev_exhaust)
    from Suc.prems(5) qm obtain b where b: "typeof m = ''object''" "JSON_stringify P m = Some b"
      by auto
    let ?c0 = "c\<lparr>sendQueue := q\<rparr>"
    have enc: "encode P m = (Inr (JBuffer b), [])"
      using b by (simp add: encode_def encode_json_def)
    have w0: "ws ?c0 = Some s" "breaker_closed ?c0" using Suc.prems by simp_all
    let ?c1 = "?c0\<lparr>registry := registry ?c0 @ [(TIMEOUTEVENT, BreakerDetector),
            (CONNECTERROR, BreakerDetector), (WSOCKETERROR, BreakerDetector)],
         ws := Some (s\<lparr>bufferedAmount := buffered_after_send P 0 (JBuffer b)\<rparr>),
         trace := trace ?c0 @ [DetectErrors, BreakerInvoke m, WsSend (JBuffer b)]\<rparr>"
    have snd: "send P n ?c0 m = Some (True, ?c1)"
      by (rule send_transmits [OF w0(1) Suc.prems(2,3) w0(2) enc])
    let ?s1 = "s\<lparr>bufferedAmount := buffered_after_send P 0 (JBuffer b)\<rparr>"
    have p1: "ws ?c1 = Some ?s1" "readyState ?s1 = WS_OPEN" "bufferedAmount ?s1 = 0"
      "breaker_closed ?c1"
      "\<forall>m \<in> set (sendQueue ?c1). typeof m = ''object'' \<and> JSON_stringify P m \<noteq> None"
      "length (sendQueue ?c1) < n"
      using Suc.prems qm assms by simp_all
    from Suc.IH [OF p1] obtain c' where
      c': "sendQueuedMsgs P n ?c1 = Some c'" "sendQueue c' = []"
        "trace c' = trace ?c1 @ sent_frames P (rev (sendQueue ?c1))"
        "senderQueue_json c' = senderQueue_json ?c1"
      by blast
    have "sendQueuedMsgs P (Suc n) c = sendQueuedMsgs P n ?c1"
      using False qm snd by simp
    with c' qm b show ?thesis by (simp add: sent_frames_def)
  qed
qed

text \<open>The effects of the open handler.\<close>

lemma transmit_effects_cong:
  "breaker_closed c' = breaker_closed c \<Longrightarrow> transmit_effects P c' msg = transmit_effects P c msg"
  by (simp add: transmit_effects_def)

lemma send_transmit_projections:
  assumes "ws c = Some s" and "readyState s = WS_OPEN" and "bufferedAmount s = 0"
  shows "\<exists>c' s'. send P n c msg = Some (True, c') \<and>
     trace c' = trace c @ [DetectErrors, BreakerInvoke msg] @ transmit_effects P c msg \<and>
     registry c' = registry c @ [(TIMEOUTEVENT, BreakerDetector),
        (CONNECTERROR, BreakerDetector), (WSOCKETERROR, BreakerDetector)] \<and>
     ws c' = Some s' \<and> readyState s' = WS_OPEN \<and>
     pong c' = pong c \<and> reconnecting c' = reconnecting c \<and> options c' = options c \<and>
     serviceList c' = serviceList c \<and> timers c' = timers c \<and> next_timer c' = next_timer c"
proof -
  have ct: "can_transmit c" using assms by (simp add: can_transmit_def)
  let ?c1 = "breaker_detectErrors [TIMEOUTEVENT, CONNECTERROR, WSOCKETERROR] c"
  have s: "send P n c msg = Some (True, breaker_invoke P msg ?c1)" using ct by simp
  show ?thesis
  proof (cases "breaker_closed c")
    case False
    then show ?thesis
      using assms s
      by (simp add: breaker_invoke_def breaker_detectErrors_def record_effects_def
          transmit_effects_def Let_def)
  next
    case True
    obtain r out where e: "encode P msg = (r, out)" by (cases "encode P msg")
    show ?thesis
    proof (cases r)
      case (Inl err)
      then show ?thesis
        using assms s True e
        by (simp add: breaker_invoke_def breaker_detectErrors_def record_effects_def
            transmit_effects_def wrapped_transmit_def Let_def)
    next
      case (Inr d)
      then show ?thesis
        using assms s True e
        by (simp add: breaker_invoke_def breaker_detectErrors_def record_effects_def
            transmit_effects_def wrapped_transmit_def ws_send_def Let_def)
    qed
  qed
qed

lemma on_open_with_pong:
  assumes "ws c = Some s" and "readyState s = WS_OPEN" and "bufferedAmount s = 0"
    and "options c = Some opts" and "pong c"
  shows "\<exists>c'. on_open P n c = Some (Inr c') \<and> \<not> reconnecting c' \<and> \<not> pong c' \<and>
     timerId c' = next_timer c \<and>
     timers c' =
       timers c @ [(next_timer c, heartbeatms P, THeartbeat),
                   (Suc (next_timer c), 1000, TSendQueuedMsgs)] \<and>
     trace c' =
       trace c
         @ [ConsoleLog ''connection open'', DetectErrors,
            BreakerInvoke (telemetry_record P (current_services (serviceList c) opts) (Some s))]
         @ transmit_effects P c
             (telemetry_record P (current_services (serviceList c) opts) (Some s))
         @ [WsPing, SetTimeout (heartbeatms P) THeartbeat, SetTimeout 1000 TSendQueuedMsgs]"
proof -
  let ?svc = "current_services (serviceList c) opts"
  let ?t = "telemetry_record P ?svc (Some s)"
  let ?c0 = "record_effects [ConsoleLog ''connection open''] c\<lparr>reconnecting := False\<rparr>"
  let ?c1 = "?c0\<lparr>serviceList := ?svc\<rparr>"
  have o0: "options ?c0 = Some opts" using assms(4) by (simp add: record_effects_def)
  have tel: "telemetry P ?c0 = Inr (?t, ?c1)"
    using telemetry_eq [OF o0, of P] assms(1) by (simp add: record_effects_def)
  have w1: "ws ?c1 = Some s" using assms(1) by (simp add: record_effects_def)
  from send_transmit_projections [OF w1 assms(2,3), of P n ?t] obtain c2 s2 where
    c2: "send P n ?c1 ?t = Some (True, c2)"
      "trace c2 = trace ?c1 @ [DetectErrors, BreakerInvoke ?t] @ transmit_effects P ?c1 ?t"
      "ws c2 = Some s2" "pong c2 = pong ?c1" "reconnecting c2 = reconnecting ?c1"
      "timers c2 = timers ?c1" "next_timer c2 = next_timer ?c1"
    by blast
  have te: "transmit_effects P ?c1 ?t = transmit_effects P c ?t"
    by (rule transmit_effects_cong) (simp add: record_effects_def)
  have p2: "pong c2" "\<not> reconnecting c2"
    using c2 assms(5) by (simp_all add: record_effects_def)
  have tr2: "trace c2 = trace c @ [ConsoleLog ''connection open'', DetectErrors, BreakerInvoke ?t]
      @ transmit_effects P c ?t"
    using c2(2) te by (simp add: record_effects_def)
  note hb = heartbeat_ping [OF p2(1) c2(3), of P]
  have "on_open P n c =
      Some (Inr (snd (setTimeout TSendQueuedMsgs 1000
        (c2\<lparr>pong := False,
            timers := timers c2 @ [(next_timer c2, heartbeatms P, THeartbeat)],
            next_timer := Suc (next_timer c2),
            trace := trace c2 @ [WsPing, SetTimeout (heartbeatms P) THeartbeat],
            timerId := next_timer c2\<rparr>))))"
    using tel c2(1) hb by (simp add: on_open_def)
  then show ?thesis
    using tr2 p2(2) c2(6,7)
    by (simp add: setTimeout_def record_effects_def)
qed


text \<open>\<open>saveSendQueue\<close> and its run to completion.\<close>

lemma saveSendQueue_spill_branch:
  assumes "3 * sendQueueLimit c \<le> 2 * length (sendQueue c)"
  shows "saveSendQueue P n c = Some (record_effects [FsStat] c)"
  using assms by simp

lemma saveSendQueue_memory_branch:
  assumes "2 * length (sendQueue c) < 3 * sendQueueLimit c"
  shows "saveSendQueue_run P (sender P n) c = map_option Inr (saveSendQueue P n c)"
  using assms by (simp add: saveSendQueue_run_def split: option.splits)

text \<open>With the limit 20 of the constructor no \<open>send\<close> and no flush starts a spill.\<close>

lemma count_ConsoleLog_FsStat: "count_list (map ConsoleLog out) FsStat = 0"
  by (induction out) simp_all

lemma breaker_invoke_keeps_queue:
  "sendQueue (breaker_invoke P msg c) = sendQueue c \<and>
   sendQueueLimit (breaker_invoke P msg c) = sendQueueLimit c \<and>
   count_list (trace (breaker_invoke P msg c)) FsStat = count_list (trace c) FsStat"
  by (auto simp: breaker_invoke_def Let_def wrapped_transmit_def ws_send_def record_effects_def
      count_ConsoleLog_FsStat split: sum.splits option.splits prod.splits)

lemma send_at_default_limit:
  assumes "sendQueueLimit c = 20" and "length (sendQueue c) \<le> 20"
    and "send P n c msg = Some (r, c')"
  shows "sendQueueLimit c' = 20 \<and> length (sendQueue c') \<le> 20 \<and>
     count_list (trace c') FsStat = count_list (trace c) FsStat"
proof (cases "can_transmit c")
  case True
  then show ?thesis
    using assms breaker_invoke_keeps_queue
      [of P msg "breaker_detectErrors [TIMEOUTEVENT, CONNECTERROR, WSOCKETERROR] c"]
    by (auto simp: breaker_detectErrors_def record_effects_def)
next
  case False
  show ?thesis
  proof (cases "length (sendQueue c) < 20")
    case True
    then show ?thesis using False assms by auto
  next
    case full: False
    have "send P n c msg = None"
      by (rule send_overflow_diverges) (use False full assms in simp_all)
    with assms(3) show ?thesis by simp
  qed
qed

lemma flush_at_default_limit:
  "sendQueueLimit c = 20 \<Longrightarrow> length (sendQueue c) \<le> 20 \<Longrightarrow>
   sendQueuedMsgs P n c = Some c' \<Longrightarrow>
   sendQueueLimit c' = 20 \<and> length (sendQueue c') \<le> 20 \<and>
   count_list (trace c') FsStat = count_list (trace c) FsStat"
proof (induction n arbitrary: c)
  case 0
  then show ?case by simp
next
  case (Suc n)
  show ?case
  proof (cases "sendQueue c = []")
    case True
    then show ?thesis using Suc.prems by simp
  next
    case False
    let ?c0 = "c\<lparr>sendQueue := butlast (sendQueue c)\<rparr>"
    from Suc.prems(3) False obtain r c1 where
      s: "send P n ?c0 (last (sendQueue c)) = Some (r, c1)" and
      f: "sendQueuedMsgs P n c1 = Some c'"
      by (auto split: option.splits)
    have "sendQueueLimit ?c0 = 20" "length (sendQueue ?c0) \<le> 20"
      using Suc.prems by simp_all
    from send_at_default_limit [OF this s]
    have c1: "sendQueueLimit c1 = 20" "length (sendQueue c1) \<le> 20"
      "count_list (trace c1) FsStat = count_list (trace c) FsStat"
      by simp_all
    from Suc.IH [OF c1(1,2) f] c1(3) show ?thesis by simp
  qed
qed


section \<open>Verified properties\<close>

text \<open>
  C1. For every JSON-representable envelope \<open>v\<close> (a plain object, a string or a number
  that \<open>JSON.stringify\<close> serialises to a text \<open>s\<close> which \<open>JSON.parse\<close> reads back as
  \<open>v\<close>), \<open>encode\<close> yields the Buffer of \<open>s\<close> and \<open>decode(encode(v))\<close> is \<open>v\<close>;
  neither call writes to the console.
\<close>

theorem decode_encode_roundtrip:
  assumes "envelope_kind v"
    and "JSON_stringify P v = Some s"
    and "JSON_parse P s = Some v"
  shows "encode P v = (Inr (JBuffer s), []) \<and> decode_encode P v = (Inr v, [])"
proof -
  from assms(1) have k: "typeof v = ''object'' \<or> typeof v = ''string'' \<or> typeof v = ''number''"
    by (cases v) simp_all
  from k assms(2) have e: "encode P v = (Inr (JBuffer s), [])"
    by (auto simp: encode_def encode_json_def)
  have "decode P (JBuffer s) = (Inr v, [])"
    using assms(3) by (simp add: decode_def decode_json_def Buffer_from_def)
  with e show ?thesis by (simp add: decode_encode_def)
qed

theorem decode_encode_roundtrip_witness:
  "envelope_kind (JObject [(''eventName'', JString ''x''), (''a'', JNumber 1)]) \<and>
   decode_encode
     (table_platform
        [(JObject [(''eventName'', JString ''x''), (''a'', JNumber 1)],
          ''{\"eventName\":\"x\",\"a\":1}'')])
     (JObject [(''eventName'', JString ''x''), (''a'', JNumber 1)])
   = (Inr (JObject [(''eventName'', JString ''x''), (''a'', JNumber 1)]), [])"
  using decode_encode_roundtrip
    [of "JObject [(''eventName'', JString ''x''), (''a'', JNumber 1)]"
        "table_platform
           [(JObject [(''eventName'', JString ''x''), (''a'', JNumber 1)],
             ''{\"eventName\":\"x\",\"a\":1}'')]"
        "''{\"eventName\":\"x\",\"a\":1}''"]
  by (simp add: table_platform_def)

text \<open>
  C9. In every client state with no socket (\<open>ws\<close> is null, as before the first
  \<open>connect()\<close> and after a \<open>close()\<close>), \<open>close(code, reason)\<close> raises a TypeError.
\<close>

theorem close_without_socket_raises:
  assumes "ws c = None"
  shows "close code reason c = Inl TypeError"
  using assms by (simp add: close_def)

theorem close_without_socket_raises_witness:
  "ws (new_client [] True None) = None \<and>
   close 1000 ''bye'' (new_client [] True None) = Inl TypeError"
  using close_without_socket_raises [of "new_client [] True None" 1000 "''bye''"]
  by (simp add: new_client_def)

text \<open>
  C5 (as amended). When the close event of the client's socket fires with code 1006 or
  4040 while the reconnecting flag is false, the handler sets the flag, cancels the
  heartbeat timer, tears the socket down and schedules exactly one \<open>connect()\<close>, 8000 ms
  later; a further close event handled in the resulting state, or in any state in which
  the flag is still set, schedules nothing.
\<close>

theorem close_event_schedules_one_reconnect:
  assumes "code = 1006 \<or> code = 4040" and "\<not> reconnecting c" and "ws c = Some s"
  shows "\<exists>c'. on_close code reason c = Inr c' \<and> reconnecting c' \<and>
     timers c' =
       filter (\<lambda>(j, ms, t). j \<noteq> timerId c) (timers c) @ [(next_timer c, 8000, TConnect)] \<and>
     trace c' =
       trace c @ [ConsoleLog ''received close frame'']
         @ map (\<lambda>l. Invoke l (JBuffer reason)) (listeners c CONNECTERROR)
         @ [ClearTimeout (timerId c), ConsoleLog ''closing socket'', WsRemoveAllListeners,
            WsClose code reason, WsTerminate, SetTimeout 8000 TConnect] \<and>
     (\<forall>code2 reason2. \<exists>c''. on_close code2 reason2 c' = Inr c'' \<and> timers c'' = timers c' \<and>
        trace c'' =
          trace c' @ [ConsoleLog ''received close frame'']
            @ map (\<lambda>l. Invoke l (JBuffer reason2)) (listeners c' CONNECTERROR)) \<and>
     (\<forall>c2 code2 reason2. reconnecting c2 \<longrightarrow>
        (\<exists>c''. on_close code2 reason2 c2 = Inr c'' \<and> timers c'' = timers c2 \<and>
           reconnecting c''))"
proof -
  from on_close_reconnect [OF assms, of reason] obtain c' where
    c': "on_close code reason c = Inr c'" "reconnecting c'"
      "timers c' =
         filter (\<lambda>(j, ms, t). j \<noteq> timerId c) (timers c) @ [(next_timer c, 8000, TConnect)]"
      "trace c' =
         trace c @ [ConsoleLog ''received close frame'']
           @ map (\<lambda>l. Invoke l (JBuffer reason)) (listeners c CONNECTERROR)
           @ [ClearTimeout (timerId c), ConsoleLog ''closing socket'', WsRemoveAllListeners,
              WsClose code reason, WsTerminate, SetTimeout 8000 TConnect]"
    by blast
  have g1: "\<exists>c''. on_close code2 reason2 c' = Inr c'' \<and> timers c'' = timers c' \<and>
        trace c'' =
          trace c' @ [ConsoleLog ''received close frame'']
            @ map (\<lambda>l. Invoke l (JBuffer reason2)) (listeners c' CONNECTERROR)"
    for code2 reason2
    using on_close_guard [OF c'(2), of code2 reason2] by blast
  have g2: "\<exists>c''. on_close code2 reason2 c2 = Inr c'' \<and> timers c'' = timers c2 \<and>
        reconnecting c''"
    if "reconnecting c2" for c2 code2 reason2
    using on_close_guard [OF that, of code2 reason2] by blast
  from c' g1 g2 show ?thesis by blast
qed

theorem close_event_schedules_one_reconnect_witness:
  "((1006::nat) = 1006 \<or> (1006::nat) = 4040) \<and>
   \<not> reconnecting ((new_client [] True None)\<lparr>ws := Some \<lparr>readyState = 3, bufferedAmount = 0\<rparr>\<rparr>) \<and>
   (\<exists>c'. on_close 1006 ''net-drop''
            ((new_client [] True None)\<lparr>ws := Some \<lparr>readyState = 3, bufferedAmount = 0\<rparr>\<rparr>)
          = Inr c' \<and>
         timers c' = [(1, 8000, TConnect)] \<and>
         (\<exists>c''. on_close 1006 ''net-drop'' c' = Inr c'' \<and> timers c'' = [(1, 8000, TConnect)])) \<and>
   reconnecting ((new_client [] True None)\<lparr>reconnecting := True\<rparr>) \<and>
   (\<exists>c''. on_close 4040 ''rejected'' ((new_client [] True None)\<lparr>reconnecting := True\<rparr>)
          = Inr c'' \<and> timers c'' = [])"
proof -
  let ?c = "(new_client [] True None)\<lparr>ws := Some \<lparr>readyState = 3, bufferedAmount = 0\<rparr>\<rparr>"
  let ?c2 = "(new_client [] True None)\<lparr>reconnecting := True\<rparr>"
  have h: "(1006::nat) = 1006 \<or> (1006::nat) = 4040" "\<not> reconnecting ?c"
    "ws ?c = Some \<lparr>readyState = 3, bufferedAmount = 0\<rparr>"
    by (simp_all add: new_client_def)
  have r2: "reconnecting ?c2" by simp
  from close_event_schedules_one_reconnect [OF h, of "''net-drop''"] obtain c' where
    c': "on_close 1006 ''net-drop'' ?c = Inr c'"
      "timers c' = filter (\<lambda>(j, ms, t). j \<noteq> timerId ?c) (timers ?c) @ [(next_timer ?c, 8000, TConnect)]"
      "\<forall>code2 reason2. \<exists>c''. on_close code2 reason2 c' = Inr c'' \<and> timers c'' = timers c' \<and>
        trace c'' =
          trace c' @ [ConsoleLog ''received close frame'']
            @ map (\<lambda>l. Invoke l (JBuffer reason2)) (listeners c' CONNECTERROR)"
      "\<forall>c2 code2 reason2. reconnecting c2 \<longrightarrow>
        (\<exists>c''. on_close code2 reason2 c2 = Inr c'' \<and> timers c'' = timers c2 \<and>
           reconnecting c'')"
    by blast
  have t1: "timers c' = [(1, 8000, TConnect)]"
    using c'(2) by (simp add: new_client_def)
  from c'(3) obtain c'' where "on_close 1006 ''net-drop'' c' = Inr c''" "timers c'' = timers c'"
    by blast
  then have a: "\<exists>c''. on_close 1006 ''net-drop'' c' = Inr c'' \<and> timers c'' = [(1, 8000, TConnect)]"
    using t1 by simp
  from c'(4) r2 obtain d where "on_close 4040 ''rejected'' ?c2 = Inr d" "timers d = timers ?c2"
    by blast
  then have b: "\<exists>c''. on_close 4040 ''rejected'' ?c2 = Inr c'' \<and> timers c'' = []"
    by (simp add: new_client_def)
  from h r2 c'(1) t1 a b show ?thesis by blast
qed

text \<open>
  C5 as stated fails when a socket opens before the scheduled attempt has run: the open
  event clears the flag, and the next abnormal close schedules a second \<open>connect()\<close>
  while the first (timer 1) is still pending.
\<close>

theorem second_reconnect_while_first_pending:
  "map_option (map_sum id timers)
     (close_publish_open_close example_platform
        ((new_client [] True None)\<lparr>ws := Some \<lparr>readyState = 1, bufferedAmount = 0\<rparr>\<rparr>)) =
   Some (Inr [(1, 8000, TConnect), (3, 1000, TSendQueuedMsgs), (4, 8000, TConnect)])"
  by (simp add: close_publish_open_close_def on_close_def publish_def connect_def on_open_def
      socket_opens_def heartbeat_def telemetry_def services_def telemetry_record_def
      close_def emit_def invoke_all_def listeners_def setTimeout_def clearTimeout_def
      record_effects_def can_transmit_def breaker_invoke_def breaker_detectErrors_def
      wrapped_transmit_def encode_def encode_json_def ws_send_def example_platform_def
      table_platform_def new_client_def WS_OPEN_def TIMEOUTEVENT_def CONNECTERROR_def
      WSOCKETERROR_def Let_def)

text \<open>
  C2. \<open>send(msg)\<close> is claimed to return a boolean in every client state. With no socket
  and the queue at its limit of 20 entries, the call does not return, whatever the fuel:
  the overflow path drains the queue through \<open>send\<close> itself.
\<close>

theorem send_on_full_queue_never_returns:
  "send P n ((new_client reg br f)\<lparr>sendQueue := replicate 20 m\<rparr>) msg = None"
  by (rule send_overflow_diverges) (simp_all add: new_client_def can_transmit_def)

text \<open>
  C3 (as amended). Publishing envelopes one after another while nothing can be transmitted,
  from an empty queue with \<open>sendQueueLimit = 20\<close>: each of the first 20 envelopes is
  appended to the in-memory queue, so after \<open>k \<le> 20\<close> publishes the queue holds exactly
  the \<open>k\<close> envelopes in publish order, the persisted file is untouched and no \<open>stat\<close> has
  been started; the overflow branch of \<open>send\<close> is selected first for the 21st envelope.
\<close>

theorem disconnected_publishes_fill_queue:
  assumes "resolveUrl P = Some u" and "\<not> can_transmit c" and "sendQueue c = []"
    and "sendQueueLimit c = 20" and "length msgs \<le> 20"
  shows "\<exists>c'. publish_all P n c msgs = Some (Inr c') \<and> sendQueue c' = msgs \<and>
     senderQueue_json c' = senderQueue_json c \<and> FsStat \<notin> set (trace c') - set (trace c) \<and>
     send_path_of c' = (if length msgs < 20 then Enqueue else Overflow)"
proof -
  have "length (sendQueue c) + length msgs \<le> sendQueueLimit c" using assms by simp
  from publish_all_disconnected [OF assms(1,2) this, of n] obtain c' where
    c': "publish_all P n c msgs = Some (Inr c')" "\<not> can_transmit c'"
      "sendQueue c' = sendQueue c @ msgs" "sendQueueLimit c' = sendQueueLimit c"
      "senderQueue_json c' = senderQueue_json c" "FsStat \<notin> set (trace c') - set (trace c)"
    by blast
  then show ?thesis using assms by (auto simp: send_path_of_def)
qed

theorem disconnected_publishes_fill_queue_witness:
  "resolveUrl (table_platform []) = Some ''ws://webswitch.local:80'' \<and>
   \<not> can_transmit (new_client [] True None) \<and>
   sendQueue (new_client [] True None) = [] \<and>
   sendQueueLimit (new_client [] True None) = 20 \<and>
   length (map envelope [1, 2, 3]) \<le> 20 \<and>
   (\<exists>c'. publish_all (table_platform []) 0 (new_client [] True None) (map envelope [1, 2, 3])
          = Some (Inr c') \<and>
         sendQueue c' = map envelope [1, 2, 3] \<and> send_path_of c' = Enqueue)"
proof -
  have h: "resolveUrl (table_platform []) = Some ''ws://webswitch.local:80''"
    "\<not> can_transmit (new_client [] True None)"
    "sendQueue (new_client [] True None) = []"
    "sendQueueLimit (new_client [] True None) = 20"
    "length (map envelope [1, 2, 3]) \<le> 20"
    by (simp_all add: table_platform_def new_client_def can_transmit_def)
  from disconnected_publishes_fill_queue [OF h, of 0] obtain c' where
    "publish_all (table_platform []) 0 (new_client [] True None) (map envelope [1, 2, 3])
       = Some (Inr c')"
    "sendQueue c' = map envelope [1, 2, 3]" "send_path_of c' = Enqueue"
    by auto
  with h show ?thesis by blast
qed

text \<open>
  C3 as stated fails at the 6th envelope: after five publishes on a fresh, disconnected
  client the next \<open>send\<close> selects the plain enqueue branch, and six publishes leave the six
  envelopes in memory having done nothing but log.
\<close>

theorem sixth_publish_is_enqueued:
  "map_option (map_sum id send_path_of)
     (publish_all (table_platform []) 0 (new_client [] True None)
        (map envelope [1, 2, 3, 4, 5])) = Some (Inr Enqueue) \<and>
   map_option (map_sum id sendQueue)
     (publish_all (table_platform []) 0 (new_client [] True None)
        (map envelope [1, 2, 3, 4, 5, 6])) = Some (Inr (map envelope [1, 2, 3, 4, 5, 6])) \<and>
   map_option (map_sum id trace)
     (publish_all (table_platform []) 0 (new_client [] True None)
        (map envelope [1, 2, 3, 4, 5, 6])) = Some (Inr [ConsoleLog ''conn already open'', ConsoleLog ''conn already open'',
                 ConsoleLog ''conn already open'', ConsoleLog ''conn already open'',
                 ConsoleLog ''conn already open''])"
  by (simp add: publish_def connect_def table_platform_def new_client_def can_transmit_def
      WS_OPEN_def send_path_of_def record_effects_def)

text \<open>
  C8 (as amended). For every inbound frame that decodes to a value other than \<open>null\<close>
  and \<open>undefined\<close> whose \<open>eventName\<close> is absent (or falsy), the handler emits
  \<open>missingEventName\<close> with the decoded value and stops: the listeners registered under
  that name are the only ones invoked, no subscriber of another name and no wildcard
  subscriber.
\<close>

theorem frame_without_eventName:
  assumes "fst (decode P message) = Inr event" and "get_eventName event = Inr name"
    and "\<not> truthy name"
  shows "on_message P message c = invoke_all (listeners c ''missingEventName'') event c \<and>
     trace (on_message P message c) =
       trace c @ map (\<lambda>l. Invoke l event) (listeners c ''missingEventName'')"
  using decode_console_silent [OF assms(1,2)] assms(2,3)
  by (simp add: on_message_def emit_def)

theorem frame_without_eventName_witness:
  "fst (decode (table_platform [(JObject [(''a'', JNumber 1)], ''{\"a\":1}'')])
          (JBuffer ''{\"a\":1}''))
     = Inr (JObject [(''a'', JNumber 1)]) \<and>
   get_eventName (JObject [(''a'', JNumber 1)]) = Inr JUndefined \<and>
   \<not> truthy JUndefined \<and>
   trace (on_message (table_platform [(JObject [(''a'', JNumber 1)], ''{\"a\":1}'')])
            (JBuffer ''{\"a\":1}'')
            (new_client [(''a'', Subscriber 2), (''missingEventName'', Subscriber 0),
                         (''*'', Subscriber 1)] True None))
     = [Invoke (Subscriber 0) (JObject [(''a'', JNumber 1)])]"
proof -
  have h: "fst (decode (table_platform [(JObject [(''a'', JNumber 1)], ''{\"a\":1}'')])
             (JBuffer ''{\"a\":1}'')) = Inr (JObject [(''a'', JNumber 1)])"
    "get_eventName (JObject [(''a'', JNumber 1)]) = Inr JUndefined"
    "\<not> truthy JUndefined"
    by (simp_all add: decode_def decode_json_def Buffer_from_def table_platform_def)
  from frame_without_eventName [OF h]
  show ?thesis using h by (simp add: listeners_def new_client_def)
qed

text \<open>
  C8 as stated fails for the frame \<open>null\<close>: it decodes to \<open>null\<close>, which has no
  \<open>eventName\<close>, reading the property throws, the exception is caught and logged, and the
  subscriber of \<open>missingEventName\<close> is not invoked.
\<close>

theorem null_frame_gets_no_diagnostic:
  "decode (table_platform [(JNull, ''null'')]) (JBuffer ''null'') = (Inr JNull, []) \<and>
   get_eventName JNull = Inl TypeError \<and>
   listeners (new_client [(''missingEventName'', Subscriber 0)] True None) ''missingEventName''
     = [Subscriber 0] \<and>
   trace (on_message (table_platform [(JNull, ''null'')]) (JBuffer ''null'')
            (new_client [(''missingEventName'', Subscriber 0)] True None))
     = [ConsoleLog ''connect error'']"
  by (simp add: decode_def decode_json_def Buffer_from_def table_platform_def on_message_def listeners_def
      new_client_def record_effects_def)

text \<open>
  C10 (as amended). Inbound frames and internal diagnostics share one event namespace:
  for every inbound frame whose \<open>eventName\<close> is one of the internal failure event names,
  the handler invokes the listeners that \<open>emit\<close> reaches when the client raises that event
  itself, in the same order, and after them the wildcard subscribers; once \<open>send\<close> has
  taken its transmit branch, the Fault Interceptor's detector is among those listeners and
  is invoked with the peer's frame.
\<close>

theorem frame_named_as_failure_event:
  assumes "fst (decode P message) = Inr event" and "get_eventName event = Inr (JString n)"
    and "n \<in> set [TIMEOUTEVENT, CONNECTERROR, WSOCKETERROR]"
  shows "trace (on_message P message c) =
       trace c @ map (\<lambda>l. Invoke l event) (listeners c n)
               @ map (\<lambda>l. Invoke l event) (listeners c ''*'') \<and>
     (\<exists>c'. emit n arg c = Inr c' \<and>
        trace c' = trace c @ map (\<lambda>l. Invoke l arg) (listeners c n)) \<and>
     (can_transmit c0 \<longrightarrow>
        (\<exists>c1. send P k c0 m = Some (True, c1) \<and> BreakerDetector \<in> set (listeners c1 n) \<and>
           Invoke BreakerDetector event \<in> set (trace (on_message P message c1))))"
proof -
  from failure_names_not_error [OF assms(3)] have ne: "n \<noteq> ''error''" "n \<noteq> []" by simp_all
  have om: "trace (on_message P message c') =
       trace c' @ map (\<lambda>l. Invoke l event) (listeners c' n)
               @ map (\<lambda>l. Invoke l event) (listeners c' ''*'')" for c'
    using decode_console_silent [OF assms(1,2)] assms(2) ne
    by (simp add: on_message_def emit_def event_key_def)
  have em: "\<exists>c'. emit n arg c = Inr c' \<and>
        trace c' = trace c @ map (\<lambda>l. Invoke l arg) (listeners c n)"
    using ne by (simp add: emit_def)
  have "\<exists>c1. send P k c0 m = Some (True, c1) \<and> BreakerDetector \<in> set (listeners c1 n) \<and>
           Invoke BreakerDetector event \<in> set (trace (on_message P message c1))"
    if ct: "can_transmit c0"
  proof -
    from send_registers_detector [OF ct assms(3), of P k m] obtain c1 where
      c1: "send P k c0 m = Some (True, c1)" "BreakerDetector \<in> set (listeners c1 n)" by blast
    then have "Invoke BreakerDetector event \<in> set (trace (on_message P message c1))"
      by (simp add: om)
    with c1 show ?thesis by blast
  qed
  with om em show ?thesis by blast
qed

theorem frame_named_as_failure_event_witness:
  "fst (decode (table_platform [(JObject [(''eventName'', JString ''webswitchTimeout'')],
                              ''{\"eventName\":\"webswitchTimeout\"}'')])
          (JBuffer ''{\"eventName\":\"webswitchTimeout\"}''))
     = Inr (JObject [(''eventName'', JString ''webswitchTimeout'')]) \<and>
   can_transmit ((new_client [] True None)\<lparr>ws := Some \<lparr>readyState = 1, bufferedAmount = 0\<rparr>\<rparr>) \<and>
   (\<exists>c1. send (table_platform [(JObject [(''eventName'', JString ''webswitchTimeout'')],
                         ''{\"eventName\":\"webswitchTimeout\"}'')])
            0 ((new_client [] True None)\<lparr>ws := Some \<lparr>readyState = 1, bufferedAmount = 0\<rparr>\<rparr>)
            (envelope 1) = Some (True, c1) \<and>
      Invoke BreakerDetector (JObject [(''eventName'', JString ''webswitchTimeout'')])
        \<in> set (trace (on_message
              (table_platform [(JObject [(''eventName'', JString ''webswitchTimeout'')],
                         ''{\"eventName\":\"webswitchTimeout\"}'')])
              (JBuffer ''{\"eventName\":\"webswitchTimeout\"}'') c1)))"
proof -
  let ?ev = "JObject [(''eventName'', JString ''webswitchTimeout'')]"
  let ?P = "table_platform [(?ev, ''{\"eventName\":\"webswitchTimeout\"}'')]"
  let ?c0 = "(new_client [] True None)\<lparr>ws := Some \<lparr>readyState = 1, bufferedAmount = 0\<rparr>\<rparr>"
  have h: "fst (decode ?P (JBuffer ''{\"eventName\":\"webswitchTimeout\"}'')) = Inr ?ev"
    "get_eventName ?ev = Inr (JString TIMEOUTEVENT)"
    "TIMEOUTEVENT \<in> set [TIMEOUTEVENT, CONNECTERROR, WSOCKETERROR]"
    by (simp_all add: decode_def decode_json_def Buffer_from_def table_platform_def TIMEOUTEVENT_def)
  have ct: "can_transmit ?c0"
    by (simp add: can_transmit_def new_client_def WS_OPEN_def)
  from frame_named_as_failure_event [OF h, of ?c0 JNull ?c0 0 "envelope 1"] ct h(1)
  show ?thesis by blast
qed

text \<open>
  C10 as stated fails where a wildcard subscriber exists: the frame named
  \<open>webswitchTimeout\<close> invokes it, while the internally raised event has no listener and
  invokes nobody.
\<close>

theorem frame_reaches_wildcard_subscriber:
  "listeners (new_client [(''*'', Subscriber 7)] True None) TIMEOUTEVENT = [] \<and>
   emit TIMEOUTEVENT (JObject [(''eventName'', JString ''telemetry'')])
     (new_client [(''*'', Subscriber 7)] True None)
   = Inr (new_client [(''*'', Subscriber 7)] True None) \<and>
   trace (on_message
            (table_platform [(JObject [(''eventName'', JString ''webswitchTimeout'')],
                         ''{\"eventName\":\"webswitchTimeout\"}'')])
            (JBuffer ''{\"eventName\":\"webswitchTimeout\"}'') (new_client [(''*'', Subscriber 7)] True None))
   = [Invoke (Subscriber 7) (JObject [(''eventName'', JString ''webswitchTimeout'')])]"
  by (simp add: listeners_def new_client_def TIMEOUTEVENT_def emit_def invoke_all_def
      record_effects_def on_message_def decode_def decode_json_def Buffer_from_def table_platform_def
      event_key_def)

text \<open>
  C6. On every transition to Open the Heartbeat Monitor is claimed to send a ping. After
  one heartbeat timeout nothing sets \<open>pong\<close> again, so when the reconnected socket opens
  the monitor sends no ping: it closes the new socket with 4877 at once and schedules
  another reconnect.
\<close>

theorem reopened_socket_gets_no_ping:
  "map_option (map_sum id ws)
     (reconnect_after_timeout example_platform (new_client [] True None)) = Some (Inr None) \<and>
   map_option (map_sum id trace)
     (reconnect_after_timeout example_platform (new_client [] True None)) =
   Some (Inr
     [ConsoleLog ''connection open'', DetectErrors,
      BreakerInvoke (telemetry_record example_platform (JArray [])
                       (Some \<lparr>readyState = 1, bufferedAmount = 0\<rparr>)),
      WsSend (JBuffer ''{\"eventName\":\"telemetry\",\"proto\":\"webswitch\",\"hostname\":\"host\",\"role\":\"node\",\"pid\":1,\"telemetry\":{},\"services\":[],\"state\":1}''),
      WsPing, SetTimeout 10000 THeartbeat, SetTimeout 1000 TSendQueuedMsgs,
      ConsoleLog ''timeout'', ConsoleLog ''closing socket'', WsRemoveAllListeners,
      WsClose 4877 ''timeout'', WsTerminate, SetTimeout 5000 TConnect,
      Invoke BreakerDetector (telemetry_record example_platform (JArray []) None),
      ConsoleLog ''connection open'', DetectErrors,
      BreakerInvoke (telemetry_record example_platform (JArray [])
                       (Some \<lparr>readyState = 1, bufferedAmount = 0\<rparr>)),
      WsSend (JBuffer ''{\"eventName\":\"telemetry\",\"proto\":\"webswitch\",\"hostname\":\"host\",\"role\":\"node\",\"pid\":1,\"telemetry\":{},\"services\":[],\"state\":1}''),
      ConsoleLog ''timeout'', ConsoleLog ''closing socket'', WsRemoveAllListeners,
      WsClose 4877 ''timeout'', WsTerminate, SetTimeout 5000 TConnect,
      Invoke BreakerDetector (telemetry_record example_platform (JArray []) None),
      Invoke BreakerDetector (telemetry_record example_platform (JArray []) None),
      SetTimeout 1000 TSendQueuedMsgs])"
  by (simp add: reconnect_after_timeout_def connect_def on_open_def socket_opens_def
      heartbeat_def telemetry_def services_def telemetry_record_def close_def emit_def
      invoke_all_def listeners_def setTimeout_def record_effects_def can_transmit_def
      breaker_invoke_def breaker_detectErrors_def wrapped_transmit_def encode_def
      encode_json_def ws_send_def example_platform_def table_platform_def new_client_def
      WS_OPEN_def TIMEOUTEVENT_def CONNECTERROR_def WSOCKETERROR_def Let_def)




text \<open>
  C7. On every socket open event the Heartbeat Monitor is claimed to be started once the
  Telemetry record has been sent. When the socket opens with a pong still pending, as it
  does after a heartbeat timeout, the flag is cleared and the Telemetry record is handed
  to the Fault Interceptor first, but the monitor sends no ping and schedules no check: it
  closes the new socket with 4877 and schedules a reconnect, and the flush is scheduled
  1000 ms later on a client without a socket.
\<close>

theorem open_with_pong_pending_starts_no_heartbeat:
  assumes "ws c = Some s" and "readyState s = WS_OPEN" and "bufferedAmount s = 0"
    and "options c = Some opts" and "\<not> pong c"
  shows "\<exists>c'. on_open P n c = Some (Inr c') \<and> ws c' = None \<and> reconnecting c' \<and> \<not> pong c' \<and>
     timers c' =
       timers c @ [(next_timer c, 5000, TConnect), (Suc (next_timer c), 1000, TSendQueuedMsgs)] \<and>
     trace c' =
       trace c
         @ [ConsoleLog ''connection open'', DetectErrors,
            BreakerInvoke
              (JObject
                 [(''eventName'', JString ''telemetry''), (''proto'', JString ''webswitch''),
                  (''hostname'', JString (os_hostname P)), (''role'', JString ''node''),
                  (''pid'', JNumber (process_pid P)), (''telemetry'', process_usage P),
                  (''services'', current_services (serviceList c) opts),
                  (''state'', JNumber 1)])]
         @ transmit_effects P c
             (JObject
                [(''eventName'', JString ''telemetry''), (''proto'', JString ''webswitch''),
                 (''hostname'', JString (os_hostname P)), (''role'', JString ''node''),
                 (''pid'', JNumber (process_pid P)), (''telemetry'', process_usage P),
                 (''services'', current_services (serviceList c) opts),
                 (''state'', JNumber 1)])
         @ [ConsoleLog ''timeout'', ConsoleLog ''closing socket'', WsRemoveAllListeners,
            WsClose 4877 ''timeout'', WsTerminate, SetTimeout 5000 TConnect]
         @ map (\<lambda>l. Invoke l
                  (JObject
                     [(''eventName'', JString ''telemetry''), (''proto'', JString ''webswitch''),
                      (''hostname'', JString (os_hostname P)), (''role'', JString ''node''),
                      (''pid'', JNumber (process_pid P)), (''telemetry'', process_usage P),
                      (''services'', current_services (serviceList c) opts),
                      (''state'', JString ''undefined'')]))
             (listeners c TIMEOUTEVENT @ [BreakerDetector])
         @ [SetTimeout 1000 TSendQueuedMsgs]"
proof -
  let ?svc = "current_services (serviceList c) opts"
  let ?t = "telemetry_record P ?svc (Some s)"
  let ?c0 = "record_effects [ConsoleLog ''connection open''] c\<lparr>reconnecting := False\<rparr>"
  let ?c1 = "?c0\<lparr>serviceList := ?svc\<rparr>"
  have t1: "?t = JObject
                 [(''eventName'', JString ''telemetry''), (''proto'', JString ''webswitch''),
                  (''hostname'', JString (os_hostname P)), (''role'', JString ''node''),
                  (''pid'', JNumber (process_pid P)), (''telemetry'', process_usage P),
                  (''services'', ?svc), (''state'', JNumber 1)]"
    using assms(2) by (simp add: telemetry_record_def WS_OPEN_def)
  have t2: "telemetry_record P ?svc None = JObject
                 [(''eventName'', JString ''telemetry''), (''proto'', JString ''webswitch''),
                  (''hostname'', JString (os_hostname P)), (''role'', JString ''node''),
                  (''pid'', JNumber (process_pid P)), (''telemetry'', process_usage P),
                  (''services'', ?svc), (''state'', JString ''undefined'')]"
    by (simp add: telemetry_record_def)
  have o0: "options ?c0 = Some opts" using assms(4) by (simp add: record_effects_def)
  have tel: "telemetry P ?c0 = Inr (?t, ?c1)"
    using telemetry_eq [OF o0, of P] assms(1) by (simp add: record_effects_def)
  have w1: "ws ?c1 = Some s" using assms(1) by (simp add: record_effects_def)
  from send_transmit_projections [OF w1 assms(2,3), of P n ?t] obtain c2 s2 where
    c2: "send P n ?c1 ?t = Some (True, c2)"
      "trace c2 = trace ?c1 @ [DetectErrors, BreakerInvoke ?t] @ transmit_effects P ?c1 ?t"
      "registry c2 = registry ?c1 @ [(TIMEOUTEVENT, BreakerDetector),
        (CONNECTERROR, BreakerDetector), (WSOCKETERROR, BreakerDetector)]"
      "ws c2 = Some s2" "pong c2 = pong ?c1" "reconnecting c2 = reconnecting ?c1"
      "options c2 = options ?c1" "serviceList c2 = serviceList ?c1"
      "timers c2 = timers ?c1" "next_timer c2 = next_timer ?c1"
    by blast
  have te: "transmit_effects P ?c1 ?t = transmit_effects P c ?t"
    by (rule transmit_effects_cong) (simp add: record_effects_def)
  have p2: "\<not> pong c2" "\<not> reconnecting c2" "options c2 = Some opts"
    using c2 assms(4,5) by (simp_all add: record_effects_def)
  have l2: "listeners c2 TIMEOUTEVENT = listeners c TIMEOUTEVENT @ [BreakerDetector]"
    using c2(3)
    by (simp add: listeners_def record_effects_def TIMEOUTEVENT_def CONNECTERROR_def
        WSOCKETERROR_def)
  have s2: "current_services (serviceList c2) opts = ?svc"
    using c2(8) by simp
  have tr2: "trace c2 = trace c @ [ConsoleLog ''connection open'', DetectErrors, BreakerInvoke ?t]
      @ transmit_effects P c ?t"
    using c2(2) te by (simp add: record_effects_def)
  note hb = heartbeat_timeout [OF p2(1,2) c2(4) p2(3), of P]
  have "on_open P n c =
      Some (Inr (snd (setTimeout TSendQueuedMsgs 1000
        (c2\<lparr>reconnecting := True, ws := None,
            timers := timers c2 @ [(next_timer c2, 5000, TConnect)],
            next_timer := Suc (next_timer c2),
            serviceList := current_services (serviceList c2) opts,
            trace := trace c2 @ [ConsoleLog ''timeout'', ConsoleLog ''closing socket'',
              WsRemoveAllListeners, WsClose 4877 ''timeout'', WsTerminate,
              SetTimeout 5000 TConnect]
              @ map (\<lambda>l. Invoke l (telemetry_record P (current_services (serviceList c2) opts) None))
                  (listeners c2 TIMEOUTEVENT)\<rparr>))))"
    using tel c2(1) hb by (simp add: on_open_def)
  then show ?thesis
    using tr2 l2 s2 p2(1) c2(9,10) t1 t2
    by (simp add: setTimeout_def record_effects_def)
qed


theorem open_with_pong_pending_starts_no_heartbeat_witness:
  "\<exists>c4 c'. reopened_after_timeout example_platform (new_client [] True None) = Some (Inr c4) \<and>
     ws c4 = Some \<lparr>readyState = 1, bufferedAmount = 0\<rparr> \<and> \<not> pong c4 \<and>
     on_open example_platform 0 c4 = Some (Inr c') \<and> ws c' = None \<and>
     trace c' =
       trace c4
         @ [ConsoleLog ''connection open'', DetectErrors,
            BreakerInvoke
              (JObject
                 [(''eventName'', JString ''telemetry''), (''proto'', JString ''webswitch''),
                  (''hostname'', JString ''host''), (''role'', JString ''node''),
                  (''pid'', JNumber 1), (''telemetry'', JObject []), (''services'', JArray []),
                  (''state'', JNumber 1)]),
            WsSend (JBuffer ''{\"eventName\":\"telemetry\",\"proto\":\"webswitch\",\"hostname\":\"host\",\"role\":\"node\",\"pid\":1,\"telemetry\":{},\"services\":[],\"state\":1}''),
            ConsoleLog ''timeout'', ConsoleLog ''closing socket'', WsRemoveAllListeners,
            WsClose 4877 ''timeout'', WsTerminate, SetTimeout 5000 TConnect,
            Invoke BreakerDetector
              (JObject
                 [(''eventName'', JString ''telemetry''), (''proto'', JString ''webswitch''),
                  (''hostname'', JString ''host''), (''role'', JString ''node''),
                  (''pid'', JNumber 1), (''telemetry'', JObject []), (''services'', JArray []),
                  (''state'', JString ''undefined'')]),
            Invoke BreakerDetector
              (JObject
                 [(''eventName'', JString ''telemetry''), (''proto'', JString ''webswitch''),
                  (''hostname'', JString ''host''), (''role'', JString ''node''),
                  (''pid'', JNumber 1), (''telemetry'', JObject []), (''services'', JArray []),
                  (''state'', JString ''undefined'')]),
            SetTimeout 1000 TSendQueuedMsgs]"
proof -
  have "\<exists>c4. reopened_after_timeout example_platform (new_client [] True None) = Some (Inr c4) \<and>
      ws c4 = Some \<lparr>readyState = 1, bufferedAmount = 0\<rparr> \<and>
      options c4 = Some \<lparr>listServices = None\<rparr> \<and> \<not> pong c4 \<and> breaker_closed c4 \<and>
      serviceList c4 = JArray [] \<and> listeners c4 TIMEOUTEVENT = [BreakerDetector]"
    by (simp add: reopened_after_timeout_def connect_def on_open_def socket_opens_def
      heartbeat_def telemetry_def services_def telemetry_record_def close_def emit_def
      invoke_all_def listeners_def setTimeout_def record_effects_def can_transmit_def
      breaker_invoke_def breaker_detectErrors_def wrapped_transmit_def encode_def
      encode_json_def ws_send_def example_platform_def table_platform_def new_client_def
      WS_OPEN_def TIMEOUTEVENT_def CONNECTERROR_def WSOCKETERROR_def Let_def)
  then obtain c4 where
    c4: "reopened_after_timeout example_platform (new_client [] True None) = Some (Inr c4)"
      "ws c4 = Some \<lparr>readyState = 1, bufferedAmount = 0\<rparr>"
      "options c4 = Some \<lparr>listServices = None\<rparr>" "\<not> pong c4" "breaker_closed c4"
      "serviceList c4 = JArray []" "listeners c4 TIMEOUTEVENT = [BreakerDetector]"
    by blast
  have h: "readyState \<lparr>readyState = 1, bufferedAmount = 0\<rparr> = WS_OPEN"
    "bufferedAmount \<lparr>readyState = 1, bufferedAmount = 0\<rparr> = 0"
    by (simp_all add: WS_OPEN_def)
  have pf: "os_hostname example_platform = ''host''" "process_pid example_platform = 1"
    "process_usage example_platform = JObject []"
    by (simp_all add: example_platform_def table_platform_def)
  have te: "transmit_effects example_platform c4
      (JObject
         [(''eventName'', JString ''telemetry''), (''proto'', JString ''webswitch''),
          (''hostname'', JString ''host''), (''role'', JString ''node''),
          (''pid'', JNumber 1), (''telemetry'', JObject []), (''services'', JArray []),
          (''state'', JNumber 1)]) =
      [WsSend (JBuffer ''{\"eventName\":\"telemetry\",\"proto\":\"webswitch\",\"hostname\":\"host\",\"role\":\"node\",\"pid\":1,\"telemetry\":{},\"services\":[],\"state\":1}'')]"
    using c4(5)
    by (simp add: transmit_effects_def encode_def encode_json_def example_platform_def
        table_platform_def)
  from open_with_pong_pending_starts_no_heartbeat
    [OF c4(2) h c4(3,4), of example_platform 0]
  obtain c' where
    "on_open example_platform 0 c4 = Some (Inr c')" "ws c' = None"
    "trace c' =
       trace c4
         @ [ConsoleLog ''connection open'', DetectErrors,
            BreakerInvoke
              (JObject
                 [(''eventName'', JString ''telemetry''), (''proto'', JString ''webswitch''),
                  (''hostname'', JString ''host''), (''role'', JString ''node''),
                  (''pid'', JNumber 1), (''telemetry'', JObject []), (''services'', JArray []),
                  (''state'', JNumber 1)]),
            WsSend (JBuffer ''{\"eventName\":\"telemetry\",\"proto\":\"webswitch\",\"hostname\":\"host\",\"role\":\"node\",\"pid\":1,\"telemetry\":{},\"services\":[],\"state\":1}''),
            ConsoleLog ''timeout'', ConsoleLog ''closing socket'', WsRemoveAllListeners,
            WsClose 4877 ''timeout'', WsTerminate, SetTimeout 5000 TConnect,
            Invoke BreakerDetector
              (JObject
                 [(''eventName'', JString ''telemetry''), (''proto'', JString ''webswitch''),
                  (''hostname'', JString ''host''), (''role'', JString ''node''),
                  (''pid'', JNumber 1), (''telemetry'', JObject []), (''services'', JArray []),
                  (''state'', JString ''undefined'')]),
            Invoke BreakerDetector
              (JObject
                 [(''eventName'', JString ''telemetry''), (''proto'', JString ''webswitch''),
                  (''hostname'', JString ''host''), (''role'', JString ''node''),
                  (''pid'', JNumber 1), (''telemetry'', JObject []), (''services'', JArray []),
                  (''state'', JString ''undefined'')]),
            SetTimeout 1000 TSendQueuedMsgs]"
    using c4(6,7) pf te by (auto simp: current_services_def)
  with c4(1,2,4) show ?thesis by blast
qed


end
